theory Spec2Isabelle
  imports Complex_Main "HOL-Library.Multiset"
begin

section \<open>The tile-matching game of script.js\<close>

text \<open>
  The script keeps one global \<^verbatim>\<open>state\<close> object, reads one global \<^verbatim>\<open>config\<close> object and
  talks to the page through the DOM. The embedding passes all of it explicitly: \<open>config\<close>
  is a parameter, and the state object together with the parts of the page and of the
  browser the script reads or writes form one record, \<open>world\<close>, that every function takes
  and returns.

  JavaScript values and their HOL counterparts:
  \<^item> a tile type is a string (an emoji, here its UTF-8 bytes); a read past the end of an
    array gives \<^verbatim>\<open>undefined\<close>, so a value read from an array of tile types is a
    \<open>string option\<close> with \<open>None\<close> for \<^verbatim>\<open>undefined\<close>;
  \<^item> row and column numbers and array indices are loop counters from 0 upwards: \<open>nat\<close>;
    the score and the two counters that are decremented are \<open>int\<close>;
  \<^item> a DOM element is a reference (\<open>nat\<close>) into the store \<open>elems\<close>;
  \<^item> reading a property of \<^verbatim>\<open>null\<close> or \<^verbatim>\<open>undefined\<close> throws a TypeError: functions that can
    throw return an \<open>outcome\<close> (or a \<open>completion\<close> when they have a value) next to the
    world they leave behind;
  \<^item> \<^verbatim>\<open>Math.random()\<close> is a parameter \<open>rnd\<close>: \<open>rnd i\<close> is the number drawn in the
    iteration of the shuffle loop whose counter is \<open>i\<close> (the loop draws once per
    iteration), a real in the interval from 0 (inclusive) to 1 (exclusive).
\<close>

subsection \<open>Data\<close>

record config =
  rows :: nat
  cols :: nat
  tileTypes :: "string list"
  gameTime :: int

definition config :: config where
  "config = \<lparr> rows = 8, cols = 10,
     tileTypes =
       [[CHR 0xF0, CHR 0x9F, CHR 0x8D, CHR 0x8E], [CHR 0xF0, CHR 0x9F, CHR 0x8D, CHR 0x8C],
        [CHR 0xF0, CHR 0x9F, CHR 0x8D, CHR 0x87], [CHR 0xF0, CHR 0x9F, CHR 0x8D, CHR 0x93],
        [CHR 0xF0, CHR 0x9F, CHR 0x8D, CHR 0x89], [CHR 0xF0, CHR 0x9F, CHR 0x8D, CHR 0x8A],
        [CHR 0xF0, CHR 0x9F, CHR 0x8D, CHR 0x8B], [CHR 0xF0, CHR 0x9F, CHR 0x8D, CHR 0x92],
        [CHR 0xF0, CHR 0x9F, CHR 0x8D, CHR 0x91], [CHR 0xF0, CHR 0x9F, CHR 0x8D, CHR 0x8D],
        [CHR 0xF0, CHR 0x9F, CHR 0xA5, CHR 0x9D], [CHR 0xF0, CHR 0x9F, CHR 0xA5, CHR 0xA5]],
     gameTime = 60 \<rparr>"

type_synonym tileval = "string option"

text \<open>An entry of \<^verbatim>\<open>state.board\<close>: \<^verbatim>\<open>{ element, type, row, col, visible }\<close>.\<close>

record cell =
  element :: nat
  type :: tileval
  row :: nat
  col :: nat
  visible :: bool

text \<open>What \<^verbatim>\<open>handleTileClick\<close> builds from the clicked element: \<^verbatim>\<open>{ element, row, col, type }\<close>.\<close>

record tile =
  element :: nat
  row :: nat
  col :: nat
  type :: string

text \<open>
  A tile's \<^verbatim>\<open>div\<close>. \<^verbatim>\<open>dataset\<close> stores strings; \<^verbatim>\<open>createBoard\<close> stores the loop counters
  there and \<^verbatim>\<open>parseInt\<close> reads them back, so the two coordinates are kept as numbers.
\<close>

record elem =
  dataset_row :: nat
  dataset_col :: nat
  dataset_type :: string
  textContent :: tileval
  classList :: "string set"
  borderColor :: string
  boxShadow :: string

datatype error = TypeError

datatype outcome = Done | Threw error

datatype 'a completion = Returned 'a | Thrown error

datatype console_entry = WarnSimplifiedMatch | ErrorPathNotImplemented | ErrorOddTileCount

datatype dialog = WinAlert int | LoseAlert int

record world =
  board :: "cell list list"
  selectedTile :: "tile option"
  score :: int
  timeLeft :: int
  timerId :: "nat option"
  tilesRemaining :: int
  elems :: "nat \<Rightarrow> elem"
  nextElement :: nat
  boardChildren :: "nat list"
  gridColumns :: nat
  pointerEvents :: string
  scoreText :: int
  timerText :: int
  intervals :: "nat set"
  nextTimer :: nat
  timeouts :: "(nat \<times> string) list"
  alerts :: "dialog list"
  console :: "console_entry list"

type_synonym stmt = "world \<Rightarrow> outcome \<times> world"

subsection \<open>Statements\<close>

text \<open>Statements run in order; the first one that throws ends the block.\<close>

fun block :: "stmt list \<Rightarrow> stmt" where
  "block [] w = (Done, w)"
| "block (s # ss) w = (case s w of (Done, w') \<Rightarrow> block ss w' | (Threw e, w') \<Rightarrow> (Threw e, w'))"

definition assign :: "(world \<Rightarrow> world) \<Rightarrow> stmt" where
  "assign f w = (Done, f w)"

text \<open>\<^verbatim>\<open>state.selectedTile.p\<close>: a property read, a TypeError when \<^verbatim>\<open>state.selectedTile\<close> is null.\<close>

definition withSelected :: "(tile \<Rightarrow> stmt) \<Rightarrow> stmt" where
  "withSelected k w = (case selectedTile w of None \<Rightarrow> (Threw TypeError, w) | Some t \<Rightarrow> k t w)"

definition classAdd :: "nat \<Rightarrow> string \<Rightarrow> stmt" where
  "classAdd e c w =
     (Done, w\<lparr>elems := (elems w)(e := (elems w e)\<lparr>classList := insert c (classList (elems w e))\<rparr>)\<rparr>)"

definition classRemove :: "nat \<Rightarrow> string \<Rightarrow> stmt" where
  "classRemove e c w =
     (Done, w\<lparr>elems := (elems w)(e := (elems w e)\<lparr>classList := classList (elems w e) - {c}\<rparr>)\<rparr>)"

text \<open>
  \<^verbatim>\<open>state.board[r][c].visible = false\<close>. \<^verbatim>\<open>state.board[r]\<close> is \<^verbatim>\<open>undefined\<close> past the last
  row, and so is \<^verbatim>\<open>state.board[r][c]\<close> past the end of the row: the property access on it
  throws and the board is left as it was.
\<close>

definition setInvisible :: "nat \<Rightarrow> nat \<Rightarrow> stmt" where
  "setInvisible r c w =
     (if r < length (board w) then
        (let line = board w ! r in
         if c < length line then
           (Done, w\<lparr>board := (board w)[r := line[c := (line ! c)\<lparr>visible := False\<rparr>]]\<rparr>)
         else (Threw TypeError, w))
      else (Threw TypeError, w))"

text \<open>An array read \<^verbatim>\<open>xs[i]\<close>: \<^verbatim>\<open>undefined\<close> out of range.\<close>

definition index :: "'a list \<Rightarrow> nat \<Rightarrow> 'a option" where
  "index xs i = (if i < length xs then Some (xs ! i) else None)"

subsection \<open>shuffleArray and generateTiles\<close>

text \<open>
  The loop of \<^verbatim>\<open>shuffleArray\<close>, on the contents of the array, from counter \<open>i\<close> down to 1:
  \<^verbatim>\<open>j = Math.floor(Math.random() * (i + 1)); [array[i], array[j]] = [array[j], array[i]]\<close>.
  The right-hand side is read first, then \<^verbatim>\<open>array[i]\<close> and \<^verbatim>\<open>array[j]\<close> are written in
  that order. A draw from 0 (inclusive) to 1 (exclusive) gives \<open>j \<le> i\<close> (lemma
  \<open>draw_in_range\<close>), inside the array; the properties below are stated for such draws.
\<close>

fun shuffle_from :: "(nat \<Rightarrow> real) \<Rightarrow> nat \<Rightarrow> 'a list \<Rightarrow> 'a list" where
  "shuffle_from rnd 0 array = array"
| "shuffle_from rnd (Suc k) array =
     (let i = Suc k;
          j = nat \<lfloor>rnd i * real (i + 1)\<rfloor>
      in shuffle_from rnd k (array[i := array ! j, j := array ! i]))"

text \<open>
  \<^verbatim>\<open>shuffleArray(array)\<close> works on the array object it is given and returns that object.
  Arrays live in a store (reference to contents); the function takes the reference and
  returns a reference and the new store. The loop starts at \<^verbatim>\<open>array.length - 1\<close>, which is
  \<open>-1\<close> for the empty array, where the loop does not run; \<open>0 - 1 = 0\<close> on \<open>nat\<close> gives
  the same.
\<close>

definition shuffleArray :: "(nat \<Rightarrow> real) \<Rightarrow> nat \<Rightarrow> (nat \<Rightarrow> 'a list) \<Rightarrow> nat \<times> (nat \<Rightarrow> 'a list)" where
  "shuffleArray rnd array store =
     (array, store(array := shuffle_from rnd (length (store array) - 1) (store array)))"

text \<open>
  \<^verbatim>\<open>generateTiles\<close>. \<^verbatim>\<open>tilePool\<close> is a fresh local array: it is put at reference 0 of a
  store of its own, handed to \<open>shuffleArray\<close>, and the result is read through the
  reference that comes back. With no tile type configured, \<^verbatim>\<open>i % 0\<close> is NaN and
  \<^verbatim>\<open>config.tileTypes[NaN]\<close> is \<^verbatim>\<open>undefined\<close>; \<open>index [] (i mod 0) = None\<close> says the same.
\<close>

definition tilePool_loop :: "config \<Rightarrow> nat \<Rightarrow> tileval list" where
  "tilePool_loop cfg neededPairs =
     fold (\<lambda>i tilePool.
             (let type = index (tileTypes cfg) (i mod length (tileTypes cfg))
              in tilePool @ [type, type]))
          [0..<neededPairs] []"

definition generateTiles :: "config \<Rightarrow> (nat \<Rightarrow> real) \<Rightarrow> world \<Rightarrow> tileval list \<times> world" where
  "generateTiles cfg rnd w =
     (let totalTiles = rows cfg * cols cfg in
      if totalTiles mod 2 \<noteq> 0 then ([], w\<lparr>console := console w @ [ErrorOddTileCount]\<rparr>)
      else
        (let neededPairs = totalTiles div 2;
             tilePool = tilePool_loop cfg neededPairs;
             (result, store) = shuffleArray rnd 0 (\<lambda>_. tilePool)
         in (store result, w)))"

subsection \<open>createBoard\<close>

text \<open>
  The body of the inner loop of \<^verbatim>\<open>createBoard\<close>, for row \<open>r\<close> and column \<open>c\<close>:
  \<^verbatim>\<open>document.createElement\<close> gives a new element, the element gets its class and its
  \<^verbatim>\<open>dataset\<close> (\<^verbatim>\<open>dataset.type = tileType\<close> stores the string of the value, \<^verbatim>\<open>"undefined"\<close>
  for \<^verbatim>\<open>undefined\<close>), it is appended to the board's element and the cell is pushed on the
  current row. The loop state is \<^verbatim>\<open>tileIndex\<close>, the row built so far and the world.
  \<^verbatim>\<open>tiles[tileIndex]\<close> is \<^verbatim>\<open>undefined\<close> past the end of \<^verbatim>\<open>tiles\<close>.
\<close>

definition toString :: "tileval \<Rightarrow> string" where
  "toString v = (case v of None \<Rightarrow> ''undefined'' | Some s \<Rightarrow> s)"

definition createCell ::
  "tileval list \<Rightarrow> nat \<Rightarrow> nat \<Rightarrow> nat \<times> cell list \<times> world \<Rightarrow> nat \<times> cell list \<times> world" where
  "createCell tiles r c acc =
     (case acc of (tileIndex, line, w) \<Rightarrow>
        (let tileType = (if tileIndex < length tiles then tiles ! tileIndex else None);
             tileElement = nextElement w;
             node = \<lparr> dataset_row = r, dataset_col = c, dataset_type = toString tileType,
                      textContent = tileType, classList = {''tile''},
                      borderColor = [], boxShadow = [] \<rparr>;
             w' = w\<lparr> elems := (elems w)(tileElement := node),
                      nextElement := Suc tileElement,
                      boardChildren := boardChildren w @ [tileElement] \<rparr>
         in (Suc tileIndex,
             line @ [\<lparr> cell.element = tileElement, cell.type = tileType,
                        cell.row = r, cell.col = c, visible = True \<rparr>],
             w')))"

text \<open>The body of the outer loop: build row \<open>r\<close> and push it on \<^verbatim>\<open>state.board\<close>.\<close>

definition createRow :: "config \<Rightarrow> tileval list \<Rightarrow> nat \<Rightarrow> nat \<times> world \<Rightarrow> nat \<times> world" where
  "createRow cfg tiles r acc =
     (case acc of (tileIndex, w) \<Rightarrow>
        (case fold (createCell tiles r) [0..<cols cfg] (tileIndex, [], w) of
           (tileIndex', line, w') \<Rightarrow> (tileIndex', w'\<lparr>board := board w' @ [line]\<rparr>)))"

definition createBoard :: "config \<Rightarrow> (nat \<Rightarrow> real) \<Rightarrow> world \<Rightarrow> world" where
  "createBoard cfg rnd w =
     (case generateTiles cfg rnd w of
        (tiles, w1) \<Rightarrow>
          (let w2 = w1\<lparr>board := [], boardChildren := [], gridColumns := cols cfg\<rparr>;
               (tileIndex, w3) = fold (createRow cfg tiles) [0..<rows cfg] (0, w2)
           in w3\<lparr>tilesRemaining := int (rows cfg * cols cfg)\<rparr>))"

subsection \<open>The match test and the path test\<close>

text \<open>
  \<^verbatim>\<open>isMatchPossible\<close> writes a warning and returns \<^verbatim>\<open>true\<close>; \<^verbatim>\<open>isPathValid\<close> writes an error
  and returns \<^verbatim>\<open>false\<close>. Neither reads its arguments or the state.
\<close>

definition isMatchPossible :: "tile \<Rightarrow> tile \<Rightarrow> world \<Rightarrow> bool completion \<times> world" where
  "isMatchPossible tile1 tile2 w = (Returned True, w\<lparr>console := console w @ [WarnSimplifiedMatch]\<rparr>)"

definition isPathValid :: "tile \<Rightarrow> tile \<Rightarrow> world \<Rightarrow> bool completion \<times> world" where
  "isPathValid tile1 tile2 w = (Returned False, w\<lparr>console := console w @ [ErrorPathNotImplemented]\<rparr>)"

subsection \<open>Feedback, score and timer\<close>

text \<open>
  \<^verbatim>\<open>flashBorder(element, color)\<close>: nothing for a missing element; otherwise the border
  takes the colour and a timeout is queued that puts the old border back.
\<close>

definition flashBorder :: "nat option \<Rightarrow> string \<Rightarrow> stmt" where
  "flashBorder elt color w =
     (case elt of
        None \<Rightarrow> (Done, w)
      | Some e \<Rightarrow>
          (let originalBorder = borderColor (elems w e)
           in (Done, w\<lparr> elems := (elems w)(e := (elems w e)\<lparr> borderColor := color,
                                          boxShadow := ''0 0 5px '' @ color \<rparr>),
                        timeouts := timeouts w @ [(e, originalBorder)] \<rparr>)))"

text \<open>The callback that \<^verbatim>\<open>flashBorder\<close> queued, run when its 300 ms are over.\<close>

definition flashEnd :: stmt where
  "flashEnd w =
     (case timeouts w of
        [] \<Rightarrow> (Done, w)
      | (e, originalBorder) # rest \<Rightarrow>
          (Done, w\<lparr> elems := (elems w)(e := (elems w e)\<lparr> borderColor := originalBorder,
                                         boxShadow := ''none'' \<rparr>),
                     timeouts := rest \<rparr>))"

definition updateScore :: stmt where
  "updateScore w = (Done, w\<lparr>scoreText := score w\<rparr>)"

text \<open>\<^verbatim>\<open>clearInterval(state.timerId)\<close>: nothing for \<^verbatim>\<open>null\<close>.\<close>

definition stopGameTimer :: stmt where
  "stopGameTimer w =
     (case timerId w of
        None \<Rightarrow> (Done, w)
      | Some t \<Rightarrow> (Done, w\<lparr>intervals := intervals w - {t}\<rparr>))"

text \<open>
  \<^verbatim>\<open>startGameTimer\<close>: its first line, \<^verbatim>\<open>clearInterval(state.timerId)\<close>, is the body of
  \<^verbatim>\<open>stopGameTimer\<close>; \<^verbatim>\<open>setInterval\<close> hands out a new timer.
\<close>

definition startGameTimer :: "config \<Rightarrow> stmt" where
  "startGameTimer cfg =
     block [stopGameTimer,
            assign (\<lambda>w. w\<lparr>timeLeft := gameTime cfg\<rparr>),
            assign (\<lambda>w. w\<lparr>timerText := timeLeft w\<rparr>),
            assign (\<lambda>w. w\<lparr> timerId := Some (nextTimer w),
                            intervals := insert (nextTimer w) (intervals w),
                            nextTimer := Suc (nextTimer w) \<rparr>)]"

definition winGame :: stmt where
  "winGame = block [stopGameTimer, assign (\<lambda>w. w\<lparr>alerts := alerts w @ [WinAlert (score w)]\<rparr>)]"

definition loseGame :: stmt where
  "loseGame =
     block [stopGameTimer,
            assign (\<lambda>w. w\<lparr>alerts := alerts w @ [LoseAlert (score w)]\<rparr>),
            assign (\<lambda>w. w\<lparr>pointerEvents := ''none''\<rparr>)]"

definition updateTimer :: stmt where
  "updateTimer =
     block [assign (\<lambda>w. w\<lparr>timeLeft := timeLeft w - 1\<rparr>),
            assign (\<lambda>w. w\<lparr>timerText := timeLeft w\<rparr>),
            (\<lambda>w. if timeLeft w \<le> 0 then loseGame w else (Done, w))]"

subsection \<open>handleTileClick\<close>

text \<open>
  The handler, with the match test it calls as a parameter; \<open>clickedElement\<close> is
  \<^verbatim>\<open>event.target\<close>. \<open>sel\<close> is \<^verbatim>\<open>state.selectedTile\<close> as the conditions of lines 114 to 129
  read it; every later \<^verbatim>\<open>state.selectedTile.p\<close> reads the state again, through
  \<open>withSelected\<close>.
\<close>

definition handleTileClick_with ::
  "(tile \<Rightarrow> tile \<Rightarrow> world \<Rightarrow> bool completion \<times> world) \<Rightarrow> nat \<Rightarrow> stmt" where
  "handleTileClick_with isMatch clickedElement w =
     (if ''hidden'' \<in> classList (elems w clickedElement)
         \<or> ''selected'' \<in> classList (elems w clickedElement) then (Done, w)
      else
        (let row = dataset_row (elems w clickedElement);
             col = dataset_col (elems w clickedElement);
             type = dataset_type (elems w clickedElement);
             currentTile = \<lparr> tile.element = clickedElement, tile.row = row,
                             tile.col = col, tile.type = type \<rparr>
         in case selectedTile w of
              None \<Rightarrow>
                block [classAdd clickedElement ''selected'',
                       assign (\<lambda>w. w\<lparr>selectedTile := Some currentTile\<rparr>)] w
            | Some sel \<Rightarrow>
                if tile.element sel = clickedElement then
                  block [classRemove clickedElement ''selected'',
                         assign (\<lambda>w. w\<lparr>selectedTile := None\<rparr>)] w
                else if tile.type sel = type then
                  (case isMatch sel currentTile w of
                     (Thrown e, w') \<Rightarrow> (Threw e, w')
                   | (Returned True, w') \<Rightarrow>
                       block [withSelected (\<lambda>s. classAdd (tile.element s) ''hidden''),
                              classAdd clickedElement ''hidden'',
                              withSelected (\<lambda>s. setInvisible (tile.row s) (tile.col s)),
                              setInvisible row col,
                              assign (\<lambda>w. w\<lparr>score := score w + 10\<rparr>),
                              assign (\<lambda>w. w\<lparr>tilesRemaining := tilesRemaining w - 2\<rparr>),
                              updateScore,
                              withSelected (\<lambda>s. classRemove (tile.element s) ''selected''),
                              assign (\<lambda>w. w\<lparr>selectedTile := None\<rparr>),
                              (\<lambda>w. if tilesRemaining w = 0 then winGame w else (Done, w))] w'
                   | (Returned False, w') \<Rightarrow>
                       block [withSelected (\<lambda>s. classRemove (tile.element s) ''selected''),
                              assign (\<lambda>w. w\<lparr>selectedTile := None\<rparr>),
                              flashBorder (Some clickedElement) ''red'',
                              withSelected (\<lambda>s. flashBorder (Some (tile.element s)) ''red'')] w')
                else
                  block [withSelected (\<lambda>s. classRemove (tile.element s) ''selected''),
                         classAdd clickedElement ''selected'',
                         assign (\<lambda>w. w\<lparr>selectedTile := Some currentTile\<rparr>),
                         flashBorder (Some clickedElement) ''orange'',
                         withSelected (\<lambda>s. flashBorder (Some (tile.element s)) ''orange'')] w))"

text \<open>The handler as shipped: line 129 calls \<^verbatim>\<open>isMatchPossible\<close>.\<close>

definition handleTileClick :: "nat \<Rightarrow> stmt" where
  "handleTileClick = handleTileClick_with isMatchPossible"

subsection \<open>Reset and the session\<close>

definition resetGame :: "config \<Rightarrow> (nat \<Rightarrow> real) \<Rightarrow> stmt" where
  "resetGame cfg rnd =
     block [stopGameTimer,
            assign (\<lambda>w. w\<lparr>score := 0\<rparr>),
            assign (\<lambda>w. w\<lparr>selectedTile := None\<rparr>),
            updateScore,
            assign (\<lambda>w. w\<lparr>pointerEvents := ''auto''\<rparr>),
            assign (createBoard cfg rnd),
            startGameTimer cfg]"

text \<open>
  The state the script starts from (lines 14 to 21) on a page with an empty board, and
  \<^verbatim>\<open>initializeGame\<close>, which registers \<^verbatim>\<open>resetGame\<close> on the button and calls it once.
\<close>

definition blank :: elem where
  "blank = \<lparr> dataset_row = 0, dataset_col = 0, dataset_type = [], textContent = None,
             classList = {}, borderColor = [], boxShadow = [] \<rparr>"

definition initial :: "config \<Rightarrow> world" where
  "initial cfg =
     \<lparr> board = [], selectedTile = None, score = 0, timeLeft = gameTime cfg, timerId = None,
       tilesRemaining = 0, elems = (\<lambda>_. blank), nextElement = 0, boardChildren = [],
       gridColumns = 0, pointerEvents = ''auto'', scoreText = 0, timerText = 0,
       intervals = {}, nextTimer = 0, timeouts = [], alerts = [], console = [] \<rparr>"

definition initializeGame :: "config \<Rightarrow> (nat \<Rightarrow> real) \<Rightarrow> stmt" where
  "initializeGame cfg rnd = resetGame cfg rnd"

text \<open>
  What can happen after the script has loaded: a click on an element, a tick of the
  interval, the end of a flash, a click on the reset button (with the random numbers its
  shuffle will draw). A handler that throws ends there; the page goes on with the state
  it left.
\<close>

datatype event = Click nat | Tick | FlashTimeout | Reset "nat \<Rightarrow> real"

fun dispatch :: "config \<Rightarrow> event \<Rightarrow> stmt" where
  "dispatch cfg (Click e) = handleTileClick e"
| "dispatch cfg Tick = updateTimer"
| "dispatch cfg FlashTimeout = flashEnd"
| "dispatch cfg (Reset rnd) = resetGame cfg rnd"

fun session :: "config \<Rightarrow> event list \<Rightarrow> world \<Rightarrow> world" where
  "session cfg [] w = w"
| "session cfg (ev # evs) w = session cfg evs (snd (dispatch cfg ev w))"

fun isReset :: "event \<Rightarrow> bool" where
  "isReset (Reset rnd) = True"
| "isReset ev = False"

section \<open>Notions the properties are stated with\<close>

subsection \<open>How a board may change\<close>

text \<open>
  A cell stays as it is or goes from visible to invisible with nothing else changed; a
  board evolves when it keeps its shape and each cell does that. A world carries on from
  another one when its board has evolved from the other's, the elements on the page are
  the same and every element has kept its \<^verbatim>\<open>dataset\<close> coordinates. A statement keeps the
  board when the world it leaves carries on from the one it found.
\<close>

definition cell_step :: "cell \<Rightarrow> cell \<Rightarrow> bool" where
  "cell_step c c' = (c' = c \<or> (visible c \<and> c' = c\<lparr>visible := False\<rparr>))"

definition evolves :: "cell list list \<Rightarrow> cell list list \<Rightarrow> bool" where
  "evolves b b' = list_all2 (list_all2 cell_step) b b'"

definition carries_on :: "world \<Rightarrow> world \<Rightarrow> bool" where
  "carries_on w w' =
     (evolves (board w) (board w')
      \<and> boardChildren w' = boardChildren w
      \<and> (\<forall>e. dataset_row (elems w' e) = dataset_row (elems w e)
               \<and> dataset_col (elems w' e) = dataset_col (elems w e)))"

definition keeps :: "stmt \<Rightarrow> bool" where
  "keeps s = (\<forall>w. carries_on w (snd (s w)))"

subsection \<open>What createBoard builds\<close>

text \<open>
  The cell and the element \<^verbatim>\<open>createBoard\<close> makes in row \<open>r\<close>, column \<open>c\<close>, when the row's
  first element is \<open>first\<close> and its first tile is \<^verbatim>\<open>tiles[tileIndex]\<close>; the board and the
  element store it makes when the first new element is \<open>first\<close>; and the tiles
  \<open>generateTiles\<close> hands it (they do not depend on the world).
\<close>

definition freshCell :: "tileval list \<Rightarrow> nat \<Rightarrow> nat \<Rightarrow> nat \<Rightarrow> nat \<Rightarrow> cell" where
  "freshCell tiles first tileIndex r c =
     \<lparr> cell.element = first + c,
       cell.type = (if tileIndex + c < length tiles then tiles ! (tileIndex + c) else None),
       cell.row = r, cell.col = c, visible = True \<rparr>"

definition freshElem :: "tileval list \<Rightarrow> nat \<Rightarrow> nat \<Rightarrow> nat \<Rightarrow> elem" where
  "freshElem tiles tileIndex r c =
     \<lparr> dataset_row = r, dataset_col = c,
       dataset_type = toString (if tileIndex + c < length tiles then tiles ! (tileIndex + c) else None),
       textContent = (if tileIndex + c < length tiles then tiles ! (tileIndex + c) else None),
       classList = {''tile''}, borderColor = [], boxShadow = [] \<rparr>"

definition freshBoard :: "config \<Rightarrow> tileval list \<Rightarrow> nat \<Rightarrow> cell list list" where
  "freshBoard cfg tiles first =
     map (\<lambda>r. map (freshCell tiles (first + r * cols cfg) (r * cols cfg) r) [0..<cols cfg])
         [0..<rows cfg]"

definition freshElems :: "config \<Rightarrow> tileval list \<Rightarrow> nat \<Rightarrow> (nat \<Rightarrow> elem) \<Rightarrow> nat \<Rightarrow> elem" where
  "freshElems cfg tiles first old e =
     (if first \<le> e \<and> e < first + rows cfg * cols cfg
      then freshElem tiles ((e - first) div cols cfg * cols cfg)
             ((e - first) div cols cfg) ((e - first) mod cols cfg)
      else old e)"

definition dealt :: "config \<Rightarrow> (nat \<Rightarrow> real) \<Rightarrow> tileval list" where
  "dealt cfg rnd = fst (generateTiles cfg rnd (initial cfg))"

subsection \<open>Worlds a game can be in\<close>

text \<open>
  The tile object \<^verbatim>\<open>handleTileClick\<close> builds for an element. A world is consistent when
  every element on the page, and the selected tile if there is one, carries the
  coordinates of a cell of the board. A list of events is playable when every click in it
  lands on an element that is on the page at that moment (the listener is attached to
  those elements only).
\<close>

definition tileOf :: "world \<Rightarrow> nat \<Rightarrow> tile" where
  "tileOf w e = \<lparr> tile.element = e, tile.row = dataset_row (elems w e),
                  tile.col = dataset_col (elems w e), tile.type = dataset_type (elems w e) \<rparr>"

definition inRange :: "cell list list \<Rightarrow> nat \<Rightarrow> nat \<Rightarrow> bool" where
  "inRange b r c = (r < length b \<and> c < length (b ! r))"

text \<open>
  A click eliminates when the clicked element is neither hidden nor selected and a tile
  of another element with the same type is selected: the condition under which
  \<^verbatim>\<open>handleTileClick\<close> reaches line 129. \<open>hidden_at r c b\<close> is the board \<open>b\<close> with the
  cell in row \<open>r\<close>, column \<open>c\<close> made invisible (the board itself when there is no such
  cell).
\<close>

definition eliminating :: "world \<Rightarrow> nat \<Rightarrow> bool" where
  "eliminating w e =
     (''hidden'' \<notin> classList (elems w e) \<and> ''selected'' \<notin> classList (elems w e)
      \<and> (case selectedTile w of
            None \<Rightarrow> False
          | Some sel \<Rightarrow> tile.element sel \<noteq> e \<and> tile.type sel = dataset_type (elems w e)))"

definition hidden_at :: "nat \<Rightarrow> nat \<Rightarrow> cell list list \<Rightarrow> cell list list" where
  "hidden_at r c b = b[r := (b ! r)[c := (b ! r ! c)\<lparr>visible := False\<rparr>]]"

definition consistent :: "world \<Rightarrow> bool" where
  "consistent w =
     (list_all (\<lambda>e. inRange (board w) (dataset_row (elems w e)) (dataset_col (elems w e)))
               (boardChildren w)
      \<and> (case selectedTile w of
            None \<Rightarrow> True
          | Some t \<Rightarrow> inRange (board w) (tile.row t) (tile.col t)))"

fun playable :: "config \<Rightarrow> event list \<Rightarrow> world \<Rightarrow> bool" where
  "playable cfg [] w = True"
| "playable cfg (Click e # evs) w =
     (e \<in> set (boardChildren w) \<and> playable cfg evs (snd (dispatch cfg (Click e) w)))"
| "playable cfg (ev # evs) w = playable cfg evs (snd (dispatch cfg ev w))"

subsection \<open>The spec's path queries\<close>

text \<open>
  The spec (section 4.1) describes a path search over the board, padded with one empty
  row and column on each side, and says which queries are valid. The script has no such
  search: these predicates follow the spec's words and only state which inputs a property
  is about. A point is a row and a column, \<open>-1\<close> and \<open>rows\<close> (or \<open>cols\<close>) being the
  padding.
  \<^item> \<open>isOccupied\<close>: a tile exists at the point and is visible;
  \<^item> \<open>validQuery\<close>: the preconditions of the spec's \<^verbatim>\<open>findPath\<close>: distinct endpoints, both
    on the board, both visible, of the same tile type;
  \<^item> \<open>clearLine\<close>: same row or same column and no occupied cell strictly between;
  \<^item> \<open>oneTurn\<close>: one of the two corners is empty and sees both endpoints;
  \<^item> \<open>twoTurn\<close>: an empty point of the padded grid is one turn from one endpoint and
    sees the other;
  \<^item> \<open>connectable\<close>: a route with at most two turns exists.
\<close>

type_synonym point = "int \<times> int"

definition position :: "tile \<Rightarrow> point" where
  "position t = (int (tile.row t), int (tile.col t))"

definition onBoard :: "cell list list \<Rightarrow> point \<Rightarrow> bool" where
  "onBoard b p = (0 \<le> fst p \<and> fst p < int (length b)
                  \<and> 0 \<le> snd p \<and> snd p < int (length (b ! nat (fst p))))"

definition isOccupied :: "cell list list \<Rightarrow> point \<Rightarrow> bool" where
  "isOccupied b p = (onBoard b p \<and> visible (b ! nat (fst p) ! nat (snd p)))"

definition validQuery :: "cell list list \<Rightarrow> point \<Rightarrow> point \<Rightarrow> bool" where
  "validQuery b p q =
     (p \<noteq> q \<and> onBoard b p \<and> onBoard b q \<and> isOccupied b p \<and> isOccupied b q
      \<and> cell.type (b ! nat (fst p) ! nat (snd p)) = cell.type (b ! nat (fst q) ! nat (snd q)))"

definition clearLine :: "cell list list \<Rightarrow> point \<Rightarrow> point \<Rightarrow> bool" where
  "clearLine b p q =
     ((fst p = fst q
       \<and> list_all (\<lambda>c. \<not> isOccupied b (fst p, c))
                  [min (snd p) (snd q) + 1 .. max (snd p) (snd q) - 1])
      \<or> (snd p = snd q
          \<and> list_all (\<lambda>r. \<not> isOccupied b (r, snd p))
                     [min (fst p) (fst q) + 1 .. max (fst p) (fst q) - 1]))"

definition oneTurn :: "cell list list \<Rightarrow> point \<Rightarrow> point \<Rightarrow> bool" where
  "oneTurn b p q =
     list_ex (\<lambda>k. \<not> isOccupied b k \<and> clearLine b p k \<and> clearLine b k q)
             [(fst p, snd q), (fst q, snd p)]"

definition width :: "cell list list \<Rightarrow> nat" where
  "width b = (case b of [] \<Rightarrow> 0 | line # _ \<Rightarrow> length line)"

definition padded :: "cell list list \<Rightarrow> point list" where
  "padded b = concat (map (\<lambda>r. map (\<lambda>c. (r, c)) [-1 .. int (width b)]) [-1 .. int (length b)])"

definition twoTurn :: "cell list list \<Rightarrow> point \<Rightarrow> point \<Rightarrow> bool" where
  "twoTurn b p q =
     list_ex (\<lambda>k. \<not> isOccupied b k
                 \<and> ((oneTurn b p k \<and> clearLine b k q) \<or> (clearLine b p k \<and> oneTurn b k q)))
             (padded b)"

definition connectable :: "cell list list \<Rightarrow> point \<Rightarrow> point \<Rightarrow> bool" where
  "connectable b p q = (clearLine b p q \<or> oneTurn b p q \<or> twoTurn b p q)"

subsection \<open>Small games to run\<close>

text \<open>
  A two by two game with two tile types, every draw of the shuffle being 0. After
  \<^verbatim>\<open>initializeGame\<close> the board is \<open>a b / b a\<close>, the elements being 0 to 3 row by row.
  \<open>picked\<close> is that game after a click on element 0, \<open>matched\<close> after a further click
  on element 3.
\<close>

definition small :: config where
  "small = \<lparr> rows = 2, cols = 2, tileTypes = [''a'', ''b''], gameTime = 60 \<rparr>"

definition started :: world where
  "started = snd (initializeGame small (\<lambda>i. 0) (initial small))"

definition picked :: world where
  "picked = session small [Click 0] started"

definition matched :: world where
  "matched = session small [Click 0, Click 3] started"

text \<open>
  A four by three game with five tile types, every draw being one half. The board is
  \<open>a e a / d b a / b e c / a c d\<close>: the \<open>b\<close> in the middle of the second row is walled
  in by its four neighbours, and the two \<open>a\<close> at the end of the first two rows touch.
\<close>

definition dense :: config where
  "dense = \<lparr> rows = 4, cols = 3, tileTypes = [''a'', ''b'', ''c'', ''d'', ''e''], gameTime = 60 \<rparr>"

definition walled :: world where
  "walled = snd (initializeGame dense (\<lambda>i. 1 / 2) (initial dense))"

section \<open>shuffleArray and generateTiles\<close>

lemma draw_in_range:
  assumes "0 \<le> x" "x < 1"
  shows "nat \<lfloor>x * real (i + 1)\<rfloor> \<le> i"
proof -
  have "x * real (i + 1) < real (i + 1)"
    using assms by (simp add: mult_less_cancel_right2 del: of_nat_Suc of_nat_add)
  then have "\<lfloor>x * real (i + 1)\<rfloor> < int (i + 1)"
    by (simp add: floor_less_iff del: of_nat_Suc of_nat_add)
  then show ?thesis by linarith
qed

lemma shuffle_from_mset:
  assumes "\<forall>i. 0 \<le> rnd i \<and> rnd i < 1"
  shows "k < length xs \<Longrightarrow> mset (shuffle_from rnd k xs) = mset xs"
proof (induction k arbitrary: xs)
  case 0
  show ?case by simp
next
  case (Suc k)
  define j where "j = nat \<lfloor>rnd (Suc k) * real (Suc k + 1)\<rfloor>"
  have j: "j \<le> Suc k"
    unfolding j_def using assms draw_in_range by blast
  let ?ys = "xs[Suc k := xs ! j, j := xs ! Suc k]"
  have "mset ?ys = mset xs"
    using Suc.prems j by (simp add: mset_swap)
  moreover have "k < length ?ys" using Suc.prems by simp
  ultimately have "mset (shuffle_from rnd k ?ys) = mset xs"
    using Suc.IH by metis
  then show ?case by (simp add: j_def Let_def)
qed

lemma shuffle_whole_mset:
  assumes "\<forall>i. 0 \<le> rnd i \<and> rnd i < 1"
  shows "mset (shuffle_from rnd (length xs - 1) xs) = mset xs"
proof (cases xs)
  case Nil
  then show ?thesis by simp
next
  case (Cons x ys)
  then show ?thesis using shuffle_from_mset [OF assms, of "length xs - 1" xs] by simp
qed

lemma tilePool_loop_Suc:
  "tilePool_loop cfg (Suc n) =
     tilePool_loop cfg n @ [index (tileTypes cfg) (n mod length (tileTypes cfg)),
                            index (tileTypes cfg) (n mod length (tileTypes cfg))]"
  by (simp add: tilePool_loop_def Let_def)

lemma tilePool_loop_length: "length (tilePool_loop cfg n) = 2 * n"
  by (induction n) (simp_all add: tilePool_loop_Suc, simp add: tilePool_loop_def)

lemma tilePool_loop_even: "even (count (mset (tilePool_loop cfg n)) t)"
  by (induction n) (simp_all add: tilePool_loop_Suc, simp add: tilePool_loop_def)

lemma generateTiles_world: "fst (generateTiles cfg rnd w') = fst (generateTiles cfg rnd w)"
  by (simp add: generateTiles_def Let_def split: prod.splits)

lemma tilePool_loop_concat:
  "tilePool_loop cfg n =
     concat (map (\<lambda>i. [index (tileTypes cfg) (i mod length (tileTypes cfg)),
                         index (tileTypes cfg) (i mod length (tileTypes cfg))]) [0..<n])"
  by (induction n) (simp_all add: tilePool_loop_Suc, simp add: tilePool_loop_def)

lemma tilePool_loop_types:
  assumes "tileTypes cfg \<noteq> []"
  shows "set (tilePool_loop cfg n) \<subseteq> Some ` set (tileTypes cfg)"
proof -
  have "index (tileTypes cfg) (i mod length (tileTypes cfg)) \<in> Some ` set (tileTypes cfg)" for i
    using assms by (simp add: index_def)
  then show ?thesis
    unfolding tilePool_loop_concat by auto
qed

text \<open>
  Claim C9. When \<open>rows * cols\<close> is even, \<open>generateTiles\<close> returns \<open>rows * cols\<close> values,
  each value occurs an even number of times among them, and they are, up to their order,
  the pairs \<^verbatim>\<open>tileTypes[i % tileTypes.length]\<close> taken twice for \<open>i\<close> from 0 to
  \<open>rows * cols / 2 - 1\<close>; so every one of them is a configured tile type when there is
  one. When \<open>rows * cols\<close> is odd it returns the empty array. The draws of
  \<^verbatim>\<open>Math.random()\<close> lie in the interval from 0 to 1, 1 excluded.
\<close>

theorem generateTiles_pairs:
  assumes "\<forall>i. 0 \<le> rnd i \<and> rnd i < 1"
  shows "(even (rows cfg * cols cfg) \<longrightarrow>
            length (fst (generateTiles cfg rnd w)) = rows cfg * cols cfg
            \<and> (\<forall>t. even (count (mset (fst (generateTiles cfg rnd w))) t))
            \<and> mset (fst (generateTiles cfg rnd w)) =
                mset (concat (map (\<lambda>i. [index (tileTypes cfg) (i mod length (tileTypes cfg)),
                                          index (tileTypes cfg) (i mod length (tileTypes cfg))])
                                  [0..<rows cfg * cols cfg div 2]))
            \<and> (tileTypes cfg \<noteq> [] \<longrightarrow>
                  set (fst (generateTiles cfg rnd w)) \<subseteq> Some ` set (tileTypes cfg)))
         \<and> (odd (rows cfg * cols cfg) \<longrightarrow> fst (generateTiles cfg rnd w) = [])"
proof (cases "even (rows cfg * cols cfg)")
  case False
  then have "rows cfg * cols cfg mod 2 \<noteq> 0" by presburger
  then have "fst (generateTiles cfg rnd w) = []"
    by (simp add: generateTiles_def Let_def del: mod_mult_self1_is_0 mod_mult_self2_is_0)
  with False show ?thesis by blast
next
  case True
  let ?pool = "tilePool_loop cfg (rows cfg * cols cfg div 2)"
  have g: "fst (generateTiles cfg rnd w) = shuffle_from rnd (length ?pool - 1) ?pool"
    using True by (simp add: generateTiles_def Let_def shuffleArray_def)
  have m: "mset (fst (generateTiles cfg rnd w)) = mset ?pool"
    unfolding g using assms by (rule shuffle_whole_mset)
  have "length (fst (generateTiles cfg rnd w)) = length ?pool"
    using m by (rule mset_eq_length)
  then have l: "length (fst (generateTiles cfg rnd w)) = rows cfg * cols cfg"
    using True by (simp add: tilePool_loop_length)
  have p: "\<forall>t. even (count (mset (fst (generateTiles cfg rnd w))) t)"
    unfolding m by (simp add: tilePool_loop_even)
  have c: "mset (fst (generateTiles cfg rnd w)) =
             mset (concat (map (\<lambda>i. [index (tileTypes cfg) (i mod length (tileTypes cfg)),
                                       index (tileTypes cfg) (i mod length (tileTypes cfg))])
                               [0..<rows cfg * cols cfg div 2]))"
    unfolding m by (simp only: tilePool_loop_concat [symmetric])
  have "set (fst (generateTiles cfg rnd w)) = set ?pool"
    using m by (rule mset_eq_setD)
  then have s: "tileTypes cfg \<noteq> [] \<longrightarrow>
                  set (fst (generateTiles cfg rnd w)) \<subseteq> Some ` set (tileTypes cfg)"
    using tilePool_loop_types [of cfg] by simp
  from l p c s True show ?thesis by blast
qed

text \<open>
  The theorem at the shipped configuration (8 by 10, 80 tiles, every draw one half), at
  the two by two game (every draw 0: the pairs \<open>a a b b\<close> come out as \<open>a b b a\<close>) and at
  a 3 by 3 configuration (9 tiles, odd).
\<close>

theorem generateTiles_pairs_witness:
  "length (fst (generateTiles config (\<lambda>i. 1 / 2) (initial config))) = 80
   \<and> (\<forall>t. even (count (mset (fst (generateTiles config (\<lambda>i. 1 / 2) (initial config)))) t))
   \<and> set (fst (generateTiles config (\<lambda>i. 1 / 2) (initial config))) \<subseteq> Some ` set (tileTypes config)
   \<and> fst (generateTiles small (\<lambda>i. 0) (initial small)) = [Some ''a'', Some ''b'', Some ''b'', Some ''a'']
   \<and> mset [Some ''a'', Some ''b'', Some ''b'', Some ''a'']
       = mset [Some ''a'', Some ''a'', Some ''b'', Some ''b'']
   \<and> fst (generateTiles (small\<lparr>rows := 3, cols := 3\<rparr>) (\<lambda>i. 1 / 2) (initial small)) = []"
proof -
  have h: "\<forall>i::nat. (0::real) \<le> 1 / 2 \<and> (1::real) / 2 < 1" by simp
  have h0: "\<forall>i::nat. (0::real) \<le> 0 \<and> (0::real) < 1" by simp
  have e: "even (rows config * cols config)" "rows config * cols config = 80" "tileTypes config \<noteq> []"
    by (simp_all add: config_def)
  have o: "odd (rows (small\<lparr>rows := 3, cols := 3\<rparr>) * cols (small\<lparr>rows := 3, cols := 3\<rparr>))"
    by (simp add: small_def)
  have v: "fst (generateTiles small (\<lambda>i. 0) (initial small)) = [Some ''a'', Some ''b'', Some ''b'', Some ''a'']"
    by code_simp
  have es: "even (rows small * cols small)" by (simp add: small_def)
  have pool: "concat (map (\<lambda>i. [index (tileTypes small) (i mod length (tileTypes small)),
                                  index (tileTypes small) (i mod length (tileTypes small))])
                          [0..<rows small * cols small div 2])
              = [Some ''a'', Some ''a'', Some ''b'', Some ''b'']"
    by code_simp
  have ms: "mset [Some ''a'', Some ''b'', Some ''b'', Some ''a'']
              = mset [Some ''a'', Some ''a'', Some ''b'', Some ''b'']"
    using generateTiles_pairs [OF h0, of small "initial small"] es unfolding v pool by blast
  note shipped = generateTiles_pairs [OF h, of config "initial config"]
  have l: "length (fst (generateTiles config (\<lambda>i. 1 / 2) (initial config))) = 80"
    using shipped e(1) unfolding e(2) by blast
  have p: "\<forall>t. even (count (mset (fst (generateTiles config (\<lambda>i. 1 / 2) (initial config)))) t)"
    using shipped e(1) by blast
  have s: "set (fst (generateTiles config (\<lambda>i. 1 / 2) (initial config))) \<subseteq> Some ` set (tileTypes config)"
    using shipped e(1,3) by blast
  have d: "fst (generateTiles (small\<lparr>rows := 3, cols := 3\<rparr>) (\<lambda>i. 1 / 2) (initial small)) = []"
    using generateTiles_pairs [OF h, of "small\<lparr>rows := 3, cols := 3\<rparr>" "initial small"] o
    by blast
  from l p s v ms d show ?thesis by blast
qed

text \<open>
  Claim C10. \<open>shuffleArray\<close> returns the reference it was given; the array behind it has
  the same length and the same elements with the same multiplicities as before, and no
  other array of the store has changed. The draws of \<^verbatim>\<open>Math.random()\<close> lie in the interval
  from 0 to 1, 1 excluded.
\<close>

theorem shuffleArray_permutes:
  assumes "\<forall>i. 0 \<le> rnd i \<and> rnd i < 1"
  shows "fst (shuffleArray rnd a store) = a
         \<and> mset (snd (shuffleArray rnd a store) a) = mset (store a)
         \<and> length (snd (shuffleArray rnd a store) a) = length (store a)
         \<and> (\<forall>b. b \<noteq> a \<longrightarrow> snd (shuffleArray rnd a store) b = store b)"
proof -
  have m: "mset (shuffle_from rnd (length (store a) - 1) (store a)) = mset (store a)"
    using assms by (rule shuffle_whole_mset)
  then have "length (shuffle_from rnd (length (store a) - 1) (store a)) = length (store a)"
    by (rule mset_eq_length)
  with m show ?thesis by (simp add: shuffleArray_def)
qed

text \<open>
  The theorem on a store with the array \<open>[1, 2, 3, 4]\<close> at reference 0 and \<open>[7]\<close>
  elsewhere, every draw being one half: the array becomes \<open>[1, 4, 2, 3]\<close>.
\<close>

theorem shuffleArray_permutes_witness:
  "fst (shuffleArray (\<lambda>i. 1 / 2) 0 (\<lambda>r. if r = 0 then [1, 2, 3, 4 :: nat] else [7])) = 0
   \<and> snd (shuffleArray (\<lambda>i. 1 / 2) 0 (\<lambda>r. if r = 0 then [1, 2, 3, 4 :: nat] else [7])) 0 = [1, 4, 2, 3]
   \<and> mset [1, 4, 2, 3 :: nat] = mset [1, 2, 3, 4]
   \<and> snd (shuffleArray (\<lambda>i. 1 / 2) 0 (\<lambda>r. if r = 0 then [1, 2, 3, 4 :: nat] else [7])) 1 = [7]"
proof -
  have h: "\<forall>i::nat. (0::real) \<le> 1 / 2 \<and> (1::real) / 2 < 1" by simp
  have v: "snd (shuffleArray (\<lambda>i. 1 / 2) 0 (\<lambda>r. if r = 0 then [1, 2, 3, 4 :: nat] else [7])) 0
             = [1, 4, 2, 3]"
    by (simp add: shuffleArray_def numeral_3_eq_3)
  show ?thesis
    using shuffleArray_permutes [OF h, of 0 "\<lambda>r. if r = 0 then [1, 2, 3, 4 :: nat] else [7]"] v
    by simp
qed

section \<open>createBoard\<close>

text \<open>
  Each fold of \<open>createBoard\<close> in closed form: what a row of cells, a board of rows and
  the whole function leave behind.
\<close>

lemma createCell_step:
  "createCell tiles r c (tileIndex, line, w) =
     (Suc tileIndex,
      line @ [freshCell tiles (nextElement w) tileIndex r 0\<lparr>cell.col := c\<rparr>],
      w\<lparr> elems := (elems w)(nextElement w := freshElem tiles tileIndex r 0\<lparr>dataset_col := c\<rparr>),
         nextElement := Suc (nextElement w),
         boardChildren := boardChildren w @ [nextElement w] \<rparr>)"
  by (simp add: createCell_def Let_def freshCell_def freshElem_def)

lemma createCell_fold:
  "fold (createCell tiles r) [0..<n] (tileIndex, line, w) =
     (tileIndex + n,
      line @ map (freshCell tiles (nextElement w) tileIndex r) [0..<n],
      w\<lparr> elems := (\<lambda>e. if nextElement w \<le> e \<and> e < nextElement w + n
                         then freshElem tiles tileIndex r (e - nextElement w) else elems w e),
         nextElement := nextElement w + n,
         boardChildren := boardChildren w @ map (\<lambda>c. nextElement w + c) [0..<n] \<rparr>)"
proof (induction n)
  case 0
  have "(\<lambda>e. if nextElement w \<le> e \<and> e < nextElement w + 0
             then freshElem tiles tileIndex r (e - nextElement w) else elems w e) = elems w"
    by (auto simp add: fun_eq_iff)
  then show ?case by simp
next
  case (Suc n)
  let ?old = "\<lambda>e. if nextElement w \<le> e \<and> e < nextElement w + n
              then freshElem tiles tileIndex r (e - nextElement w) else elems w e"
  have el: "?old(nextElement w + n := freshElem tiles (tileIndex + n) r 0\<lparr>dataset_col := n\<rparr>)
        = (\<lambda>e. if nextElement w \<le> e \<and> e < nextElement w + Suc n
              then freshElem tiles tileIndex r (e - nextElement w) else elems w e)"
    by (auto simp add: fun_eq_iff freshElem_def)
  have ce: "freshCell tiles (nextElement w + n) (tileIndex + n) r 0\<lparr>cell.col := n\<rparr>
              = freshCell tiles (nextElement w) tileIndex r n"
    by (simp add: freshCell_def)
  have "fold (createCell tiles r) [0..<Suc n] (tileIndex, line, w) =
      createCell tiles r n (fold (createCell tiles r) [0..<n] (tileIndex, line, w))"
    by simp
  also have "\<dots> = createCell tiles r n
      (tileIndex + n,
      line @ map (freshCell tiles (nextElement w) tileIndex r) [0..<n],
      w\<lparr> elems := ?old,
         nextElement := nextElement w + n,
         boardChildren := boardChildren w @ map (\<lambda>c. nextElement w + c) [0..<n] \<rparr>)"
    by (simp only: Suc)
  also have "\<dots> = (tileIndex + Suc n,
      line @ map (freshCell tiles (nextElement w) tileIndex r) [0..<Suc n],
      w\<lparr> elems := (\<lambda>e. if nextElement w \<le> e \<and> e < nextElement w + Suc n
                         then freshElem tiles tileIndex r (e - nextElement w) else elems w e),
         nextElement := nextElement w + Suc n,
         boardChildren := boardChildren w @ map (\<lambda>c. nextElement w + c) [0..<Suc n] \<rparr>)"
    unfolding createCell_step by (simp add: el ce)
  finally show ?case .
qed

lemma createRow_step:
  "createRow cfg tiles r (tileIndex, w) =
     (tileIndex + cols cfg,
      w\<lparr> board := board w @ [map (freshCell tiles (nextElement w) tileIndex r) [0..<cols cfg]],
         elems := (\<lambda>e. if nextElement w \<le> e \<and> e < nextElement w + cols cfg
                         then freshElem tiles tileIndex r (e - nextElement w) else elems w e),
         nextElement := nextElement w + cols cfg,
         boardChildren := boardChildren w @ map (\<lambda>c. nextElement w + c) [0..<cols cfg] \<rparr>)"
  by (simp add: createRow_def createCell_fold)

lemma createRow_step_at:
  assumes "nextElement w = first" "elems w = old" "board w = b" "boardChildren w = kids"
  shows "createRow cfg tiles r (tileIndex, w) =
     (tileIndex + cols cfg,
      w\<lparr> board := b @ [map (freshCell tiles first tileIndex r) [0..<cols cfg]],
         elems := (\<lambda>e. if first \<le> e \<and> e < first + cols cfg
                         then freshElem tiles tileIndex r (e - first) else old e),
         nextElement := first + cols cfg,
         boardChildren := kids @ map (\<lambda>c. first + c) [0..<cols cfg] \<rparr>)"
  using assms by (auto simp add: createRow_step)

lemma upt_shift: "[k..<k + m] = map (\<lambda>c. k + c) [0..<m]"
  by (induction m) simp_all

lemma upt_block: "[0..<n * m + m] = [0..<n * m] @ map (\<lambda>c. n * m + c) [0..<m]"
  using upt_add_eq_append [of 0 "n * m" m] by (simp add: upt_shift)

lemma createRow_fold:
  "fold (createRow cfg tiles) [0..<n] (tileIndex, w) =
     (tileIndex + n * cols cfg,
      w\<lparr> board := board w @
            map (\<lambda>r. map (freshCell tiles (nextElement w + r * cols cfg) (tileIndex + r * cols cfg) r)
                       [0..<cols cfg]) [0..<n],
         elems := (\<lambda>e. if nextElement w \<le> e \<and> e < nextElement w + n * cols cfg
                         then freshElem tiles (tileIndex + (e - nextElement w) div cols cfg * cols cfg)
                                ((e - nextElement w) div cols cfg) ((e - nextElement w) mod cols cfg)
                         else elems w e),
         nextElement := nextElement w + n * cols cfg,
         boardChildren := boardChildren w @ map (\<lambda>k. nextElement w + k) [0..<n * cols cfg] \<rparr>)"
proof (induction n)
  case 0
  have "(\<lambda>e. if nextElement w \<le> e \<and> e < nextElement w + 0 * cols cfg
                         then freshElem tiles (tileIndex + (e - nextElement w) div cols cfg * cols cfg)
                                ((e - nextElement w) div cols cfg) ((e - nextElement w) mod cols cfg)
                         else elems w e) = elems w"
    by (auto simp add: fun_eq_iff)
  then show ?case by simp
next
  case (Suc n)
  let ?first = "nextElement w"
  let ?m = "cols cfg"
  let ?old = "\<lambda>e. if ?first \<le> e \<and> e < ?first + n * ?m
                         then freshElem tiles (tileIndex + (e - ?first) div ?m * ?m)
                                ((e - ?first) div ?m) ((e - ?first) mod ?m)
                         else elems w e"
  let ?new = "\<lambda>e. if ?first \<le> e \<and> e < ?first + Suc n * ?m
                         then freshElem tiles (tileIndex + (e - ?first) div ?m * ?m)
                                ((e - ?first) div ?m) ((e - ?first) mod ?m)
                         else elems w e"
  have el: "(\<lambda>e. if ?first + n * ?m \<le> e \<and> e < ?first + n * ?m + ?m
               then freshElem tiles (tileIndex + n * ?m) n (e - (?first + n * ?m)) else ?old e)
            = ?new"
  proof (rule ext)
    fix e
    show "(if ?first + n * ?m \<le> e \<and> e < ?first + n * ?m + ?m
               then freshElem tiles (tileIndex + n * ?m) n (e - (?first + n * ?m)) else ?old e)
          = ?new e"
    proof (cases "?first + n * ?m \<le> e \<and> e < ?first + n * ?m + ?m")
      case True
      define d where "d = e - (?first + n * ?m)"
      have e: "e - ?first = n * ?m + d"
        using True unfolding d_def by arith
      have d: "d < ?m"
        using True unfolding d_def by arith
      have dm: "(n * ?m + d) div ?m = n" "(n * ?m + d) mod ?m = d"
        using d by simp_all
      have "?new e = freshElem tiles (tileIndex + n * ?m) n d"
        using True d by (simp add: e dm)
      then show ?thesis
        using True by (simp add: d_def)
    next
      case False
      then show ?thesis by auto
    qed
  qed
  have kids: "map ((+) ?first) [0..<n * ?m] @ map ((+) (?first + n * ?m)) [0..<?m]
                = map ((+) ?first) [0..<n * ?m + ?m]"
    by (simp add: upt_block add.assoc)
  have "fold (createRow cfg tiles) [0..<Suc n] (tileIndex, w) =
      createRow cfg tiles n (fold (createRow cfg tiles) [0..<n] (tileIndex, w))"
    by simp
  also have "\<dots> = createRow cfg tiles n
     (tileIndex + n * ?m,
      w\<lparr> board := board w @
            map (\<lambda>r. map (freshCell tiles (?first + r * ?m) (tileIndex + r * ?m) r) [0..<?m]) [0..<n],
         elems := ?old,
         nextElement := ?first + n * ?m,
         boardChildren := boardChildren w @ map (\<lambda>k. ?first + k) [0..<n * ?m] \<rparr>)"
    by (simp only: Suc)
  also have "\<dots> = (tileIndex + Suc n * ?m,
      w\<lparr> board := board w @
            map (\<lambda>r. map (freshCell tiles (?first + r * ?m) (tileIndex + r * ?m) r) [0..<?m]) [0..<Suc n],
         elems := ?new,
         nextElement := ?first + Suc n * ?m,
         boardChildren := boardChildren w @ map (\<lambda>k. ?first + k) [0..<Suc n * ?m] \<rparr>)"
    apply (subst createRow_step_at [where first = "?first + n * ?m" and old = ?old
            and b = "board w @ map (\<lambda>r. map (freshCell tiles (?first + r * ?m) (tileIndex + r * ?m) r) [0..<?m]) [0..<n]"
            and kids = "boardChildren w @ map (\<lambda>k. ?first + k) [0..<n * ?m]"])
        apply simp
       apply simp
      apply simp
     apply simp
    using el kids apply (simp add: add.assoc add.commute [of "cols cfg" "n * cols cfg"])
    done
  finally show ?case .
qed

lemma generateTiles_fst: "fst (generateTiles cfg rnd w) = dealt cfg rnd"
  unfolding dealt_def by (rule generateTiles_world)

lemma generateTiles_snd:
  "snd (generateTiles cfg rnd w) =
     (if rows cfg * cols cfg mod 2 \<noteq> 0 then w\<lparr>console := console w @ [ErrorOddTileCount]\<rparr> else w)"
  by (simp add: generateTiles_def Let_def split: prod.splits)

lemma createBoard_eq:
  "createBoard cfg rnd w =
     (snd (generateTiles cfg rnd w))
       \<lparr> board := freshBoard cfg (fst (generateTiles cfg rnd w)) (nextElement w),
         tilesRemaining := int (rows cfg * cols cfg),
         elems := freshElems cfg (fst (generateTiles cfg rnd w)) (nextElement w) (elems w),
         nextElement := nextElement w + rows cfg * cols cfg,
         boardChildren := map ((+) (nextElement w)) [0..<rows cfg * cols cfg],
         gridColumns := cols cfg \<rparr>"
proof -
  obtain tiles w1 where g: "generateTiles cfg rnd w = (tiles, w1)"
    by (cases "generateTiles cfg rnd w")
  have w1: "nextElement w1 = nextElement w" "elems w1 = elems w"
    using generateTiles_snd [of cfg rnd w] g by (auto split: if_splits)
  let ?w2 = "w1\<lparr>board := [], boardChildren := [], gridColumns := cols cfg\<rparr>"
  have "createBoard cfg rnd w =
          (snd (fold (createRow cfg tiles) [0..<rows cfg] (0, ?w2)))
            \<lparr>tilesRemaining := int (rows cfg * cols cfg)\<rparr>"
    using g by (simp add: createBoard_def split_beta)
  also have "\<dots> = w1
       \<lparr> board := freshBoard cfg tiles (nextElement w),
         tilesRemaining := int (rows cfg * cols cfg),
         elems := freshElems cfg tiles (nextElement w) (elems w),
         nextElement := nextElement w + rows cfg * cols cfg,
         boardChildren := map ((+) (nextElement w)) [0..<rows cfg * cols cfg],
         gridColumns := cols cfg \<rparr>"
    unfolding createRow_fold by (simp add: w1 freshBoard_def freshElems_def fun_eq_iff)
  finally show ?thesis using g by simp
qed

lemma createBoard_dealt:
  "createBoard cfg rnd w =
     (snd (generateTiles cfg rnd w))
       \<lparr> board := freshBoard cfg (dealt cfg rnd) (nextElement w),
         tilesRemaining := int (rows cfg * cols cfg),
         elems := freshElems cfg (dealt cfg rnd) (nextElement w) (elems w),
         nextElement := nextElement w + rows cfg * cols cfg,
         boardChildren := map ((+) (nextElement w)) [0..<rows cfg * cols cfg],
         gridColumns := cols cfg \<rparr>"
  using createBoard_eq [of cfg rnd w] by (simp only: generateTiles_fst)


lemma resetGame_result:
  "fst (resetGame cfg rnd w) = Done
   \<and> board (snd (resetGame cfg rnd w)) = freshBoard cfg (dealt cfg rnd) (nextElement w)
   \<and> elems (snd (resetGame cfg rnd w)) = freshElems cfg (dealt cfg rnd) (nextElement w) (elems w)
   \<and> boardChildren (snd (resetGame cfg rnd w)) = map ((+) (nextElement w)) [0..<rows cfg * cols cfg]
   \<and> selectedTile (snd (resetGame cfg rnd w)) = None"
  by (simp add: resetGame_def startGameTimer_def assign_def updateScore_def stopGameTimer_def
        createBoard_dealt generateTiles_snd split: option.splits)

section \<open>The board between resets\<close>

lemma cell_step_refl: "cell_step c c"
  by (simp add: cell_step_def)

lemma cell_step_trans: "cell_step a b \<Longrightarrow> cell_step b c \<Longrightarrow> cell_step a c"
  by (auto simp add: cell_step_def)

lemma cell_step_hide: "cell_step c (c\<lparr>visible := False\<rparr>)"
  by (cases "visible c") (simp_all add: cell_step_def)

lemma evolves_refl: "evolves b b"
  by (simp add: evolves_def list_all2_refl cell_step_refl)

lemma evolves_trans: "evolves a b \<Longrightarrow> evolves b c \<Longrightarrow> evolves a c"
  unfolding evolves_def
  by (erule list_all2_trans [rotated], assumption)
     (erule list_all2_trans [rotated], assumption, erule cell_step_trans, assumption)

lemma evolves_hide:
  assumes "r < length b" "c < length (b ! r)"
  shows "evolves b (b[r := (b ! r)[c := (b ! r ! c)\<lparr>visible := False\<rparr>]])"
  using assms
  by (auto simp add: evolves_def list_all2_conv_all_nth nth_list_update cell_step_refl cell_step_hide)

lemma evolves_nth:
  assumes "evolves b b'"
  shows "length b' = length b"
    and "r < length b \<Longrightarrow> length (b' ! r) = length (b ! r)"
    and "r < length b \<Longrightarrow> c < length (b ! r) \<Longrightarrow> cell_step (b ! r ! c) (b' ! r ! c)"
  using assms by (auto simp add: evolves_def list_all2_conv_all_nth)

lemma evolves_inRange: "evolves b b' \<Longrightarrow> inRange b' r c = inRange b r c"
  by (auto simp add: inRange_def evolves_def list_all2_conv_all_nth)

lemma carries_on_refl: "carries_on w w"
  by (simp add: carries_on_def evolves_refl)

lemma carries_on_trans: "carries_on a b \<Longrightarrow> carries_on b c \<Longrightarrow> carries_on a c"
  by (auto simp add: carries_on_def intro: evolves_trans)

lemma keeps_setInvisible: "keeps (setInvisible r c)"
  by (simp add: keeps_def carries_on_def setInvisible_def Let_def evolves_refl evolves_hide)

lemma keeps_assign:
  "(\<And>w. board (f w) = board w \<and> boardChildren (f w) = boardChildren w \<and> elems (f w) = elems w)
     \<Longrightarrow> keeps (assign f)"
  by (simp add: keeps_def carries_on_def assign_def evolves_refl)

lemma keeps_classAdd: "keeps (classAdd e c)"
  by (simp add: keeps_def carries_on_def classAdd_def evolves_refl)

lemma keeps_classRemove: "keeps (classRemove e c)"
  by (simp add: keeps_def carries_on_def classRemove_def evolves_refl)

lemma keeps_flashBorder: "keeps (flashBorder t c)"
  by (simp add: keeps_def carries_on_def flashBorder_def Let_def evolves_refl split: option.splits)

lemma keeps_flashEnd: "keeps flashEnd"
  by (simp add: keeps_def carries_on_def flashEnd_def evolves_refl split: list.splits prod.splits)

lemma keeps_updateScore: "keeps updateScore"
  by (simp add: keeps_def carries_on_def updateScore_def evolves_refl)

lemma keeps_stopGameTimer: "keeps stopGameTimer"
  by (simp add: keeps_def carries_on_def stopGameTimer_def evolves_refl split: option.splits)

lemma keeps_withSelected: "(\<And>t. keeps (k t)) \<Longrightarrow> keeps (withSelected k)"
  by (simp add: keeps_def withSelected_def carries_on_refl split: option.splits)

lemma keeps_when: "keeps s \<Longrightarrow> keeps (\<lambda>w. if p w then s w else (Done, w))"
  by (simp add: keeps_def carries_on_refl)

lemma keeps_block: "list_all keeps ss \<Longrightarrow> keeps (block ss)"
proof (induction ss)
  case Nil
  show ?case by (simp add: keeps_def carries_on_refl)
next
  case (Cons s ss)
  then have s: "keeps s" and rest: "keeps (block ss)" by simp_all
  show ?case
    unfolding keeps_def
  proof
    fix w
    obtain out w1 where sw: "s w = (out, w1)" by (cases "s w")
    have first: "carries_on w w1"
      using s sw by (metis keeps_def snd_conv)
    show "carries_on w (snd (block (s # ss) w))"
    proof (cases out)
      case Done
      have "carries_on w1 (snd (block ss w1))"
        using rest by (simp add: keeps_def)
      with first have "carries_on w (snd (block ss w1))" by (rule carries_on_trans)
      then show ?thesis using sw Done by simp
    next
      case (Threw e)
      with first sw show ?thesis by simp
    qed
  qed
qed

lemma keeps_winGame: "keeps winGame"
  unfolding winGame_def by (rule keeps_block) (simp add: keeps_stopGameTimer keeps_assign)

lemma keeps_loseGame: "keeps loseGame"
  unfolding loseGame_def by (rule keeps_block) (simp add: keeps_stopGameTimer keeps_assign)

lemma keeps_updateTimer: "keeps updateTimer"
  unfolding updateTimer_def
  by (rule keeps_block) (simp add: keeps_assign keeps_when keeps_loseGame)

lemmas keeps_basic = keeps_setInvisible keeps_assign keeps_classAdd keeps_classRemove
  keeps_flashBorder keeps_updateScore keeps_withSelected keeps_when keeps_winGame

lemma block_carries_on:
  assumes "carries_on w w1" "list_all keeps ss"
  shows "carries_on w (snd (block ss w1))"
proof -
  have "carries_on w1 (snd (block ss w1))"
    using keeps_block [OF assms(2)] by (simp add: keeps_def)
  with assms(1) show ?thesis by (rule carries_on_trans)
qed

lemma console_carries_on: "carries_on w (w\<lparr>console := c\<rparr>)"
  by (simp add: carries_on_def evolves_refl)

lemma keeps_handleTileClick: "keeps (handleTileClick e)"
  unfolding keeps_def
proof
  fix w
  show "carries_on w (snd (handleTileClick e w))"
    unfolding handleTileClick_def handleTileClick_with_def isMatchPossible_def Let_def
    by (auto split: option.splits intro!: block_carries_on
             simp add: keeps_basic carries_on_refl console_carries_on simp del: block.simps)
qed

lemma keeps_dispatch: "\<not> isReset ev \<Longrightarrow> keeps (dispatch cfg ev)"
  by (cases ev) (simp_all add: keeps_handleTileClick keeps_updateTimer keeps_flashEnd)

lemma session_carries_on:
  "\<forall>ev \<in> set evs. \<not> isReset ev \<Longrightarrow> carries_on w (session cfg evs w)"
proof (induction evs arbitrary: w)
  case Nil
  show ?case by (simp add: carries_on_refl)
next
  case (Cons ev evs)
  have "carries_on w (snd (dispatch cfg ev w))"
    using Cons.prems keeps_dispatch [of ev cfg] by (simp add: keeps_def)
  moreover have "carries_on (snd (dispatch cfg ev w)) (session cfg evs (snd (dispatch cfg ev w)))"
    using Cons by simp
  ultimately show ?case by (simp add: carries_on_trans)
qed

section \<open>Consistent worlds\<close>

lemmas stmt_defs = assign_def withSelected_def classAdd_def classRemove_def setInvisible_def
  updateScore_def flashBorder_def stopGameTimer_def

lemma freshBoard_shape:
  "length (freshBoard cfg tiles first) = rows cfg"
  "r < rows cfg \<Longrightarrow> length (freshBoard cfg tiles first ! r) = cols cfg"
  "r < rows cfg \<Longrightarrow> c < cols cfg \<Longrightarrow>
     freshBoard cfg tiles first ! r ! c = freshCell tiles (first + r * cols cfg) (r * cols cfg) r c"
  by (simp_all add: freshBoard_def)

lemma consistent_resetGame: "consistent (snd (resetGame cfg rnd w))"
proof -
  let ?w = "snd (resetGame cfg rnd w)"
  note r = resetGame_result [of cfg rnd w]
  have "inRange (board ?w) (dataset_row (elems ?w e)) (dataset_col (elems ?w e))"
    if "e \<in> set (boardChildren ?w)" for e
  proof -
    define k where "k = e - nextElement w"
    from that r have "nextElement w \<le> e \<and> e < nextElement w + rows cfg * cols cfg"
      by auto
    then have k: "k < rows cfg * cols cfg" and e: "e = nextElement w + k"
      unfolding k_def by arith+
    have pos: "0 < cols cfg" using k by (cases "cols cfg") auto
    have "k div cols cfg < rows cfg"
      using k pos by (simp add: less_mult_imp_div_less)
    moreover have "k mod cols cfg < cols cfg" using pos by simp
    ultimately show ?thesis
      using r k e by (simp add: inRange_def freshElems_def freshElem_def freshBoard_shape)
  qed
  then show ?thesis
    using r by (simp add: consistent_def list_all_iff)
qed

lemma consistent_carries_on:
  assumes "consistent w" "carries_on w w'"
      and "selectedTile w' = None \<or> selectedTile w' = selectedTile w
           \<or> (\<exists>e \<in> set (boardChildren w). selectedTile w' = Some (tileOf w e))"
  shows "consistent w'"
proof -
  have ev: "evolves (board w) (board w')"
    and kids: "boardChildren w' = boardChildren w"
    and data: "\<And>e. dataset_row (elems w' e) = dataset_row (elems w e)"
              "\<And>e. dataset_col (elems w' e) = dataset_col (elems w e)"
    using assms(2) by (simp_all add: carries_on_def)
  have all: "\<And>e. e \<in> set (boardChildren w) \<Longrightarrow>
               inRange (board w) (dataset_row (elems w e)) (dataset_col (elems w e))"
    using assms(1) by (simp add: consistent_def list_all_iff)
  have one: "list_all (\<lambda>e. inRange (board w') (dataset_row (elems w' e)) (dataset_col (elems w' e)))
               (boardChildren w')"
    using all by (simp add: list_all_iff kids data evolves_inRange [OF ev])
  have two: "case selectedTile w' of None \<Rightarrow> True
             | Some t \<Rightarrow> inRange (board w') (tile.row t) (tile.col t)"
    using assms(3)
  proof (elim disjE bexE)
    assume "selectedTile w' = None"
    then show ?thesis by simp
  next
    assume "selectedTile w' = selectedTile w"
    then show ?thesis
      using assms(1) by (simp add: consistent_def evolves_inRange [OF ev] split: option.splits)
  next
    fix e
    assume "e \<in> set (boardChildren w)" "selectedTile w' = Some (tileOf w e)"
    then show ?thesis
      using all [of e] by (simp add: tileOf_def evolves_inRange [OF ev])
  qed
  from one two show ?thesis by (simp add: consistent_def)
qed

lemma block_selected:
  assumes "list_all (\<lambda>s. \<forall>w. selectedTile (snd (s w)) = selectedTile w) ss"
  shows "selectedTile (snd (block ss w)) = selectedTile w"
  using assms
proof (induction ss arbitrary: w)
  case Nil
  show ?case by simp
next
  case (Cons s ss)
  obtain out w1 where sw: "s w = (out, w1)" by (cases "s w")
  from Cons.prems have "\<forall>w. selectedTile (snd (s w)) = selectedTile w" by simp
  then have w1: "selectedTile w1 = selectedTile w"
    using sw by (metis snd_conv)
  show ?case
  proof (cases out)
    case Done
    then show ?thesis using Cons sw w1 by simp
  next
    case (Threw e)
    then show ?thesis using sw w1 by simp
  qed
qed

lemma updateTimer_selected: "selectedTile (snd (updateTimer w)) = selectedTile w"
  unfolding updateTimer_def
  by (rule block_selected)
     (simp add: assign_def loseGame_def stopGameTimer_def split: option.splits)

lemma flashEnd_selected: "selectedTile (snd (flashEnd w)) = selectedTile w"
  by (simp add: flashEnd_def split: list.splits prod.splits)

lemma handleTileClick_selected:
  "selectedTile (snd (handleTileClick e w)) = None
   \<or> selectedTile (snd (handleTileClick e w)) = selectedTile w
   \<or> selectedTile (snd (handleTileClick e w)) = Some (tileOf w e)"
  unfolding handleTileClick_def handleTileClick_with_def isMatchPossible_def Let_def tileOf_def
  by (auto simp add: stmt_defs winGame_def Let_def split: option.splits)

lemma consistent_click:
  assumes "consistent w" "e \<in> set (boardChildren w)"
  shows "consistent (snd (handleTileClick e w))"
proof (rule consistent_carries_on [OF assms(1)])
  show "carries_on w (snd (handleTileClick e w))"
    using keeps_handleTileClick [of e] by (simp add: keeps_def)
  show "selectedTile (snd (handleTileClick e w)) = None
        \<or> selectedTile (snd (handleTileClick e w)) = selectedTile w
        \<or> (\<exists>x \<in> set (boardChildren w). selectedTile (snd (handleTileClick e w)) = Some (tileOf w x))"
    using handleTileClick_selected [of e w] assms(2) by blast
qed

lemma consistent_dispatch:
  assumes "consistent w" "playable cfg [ev] w"
  shows "consistent (snd (dispatch cfg ev w))"
proof (cases ev)
  case (Click e)
  then show ?thesis using assms consistent_click by simp
next
  case Tick
  have "carries_on w (snd (updateTimer w))"
    using keeps_updateTimer by (simp add: keeps_def)
  then show ?thesis
    using Tick assms(1) consistent_carries_on updateTimer_selected by auto
next
  case FlashTimeout
  have "carries_on w (snd (flashEnd w))"
    using keeps_flashEnd by (simp add: keeps_def)
  then show ?thesis
    using FlashTimeout assms(1) consistent_carries_on flashEnd_selected by auto
next
  case (Reset rnd)
  then show ?thesis by (simp add: consistent_resetGame)
qed

lemma consistent_session:
  "consistent w \<Longrightarrow> playable cfg evs w \<Longrightarrow> consistent (session cfg evs w)"
proof (induction evs arbitrary: w)
  case Nil
  then show ?case by simp
next
  case (Cons ev evs)
  have one: "playable cfg [ev] w" and rest: "playable cfg evs (snd (dispatch cfg ev w))"
    using Cons.prems(2) by (cases ev; simp)+
  have "consistent (snd (dispatch cfg ev w))"
    using Cons.prems(1) one by (rule consistent_dispatch)
  then show ?case using Cons.IH rest by simp
qed

lemma consistent_game:
  "playable cfg evs (snd (initializeGame cfg rnd w0)) \<Longrightarrow>
     consistent (session cfg evs (snd (initializeGame cfg rnd w0)))"
  by (rule consistent_session) (simp_all add: initializeGame_def consistent_resetGame)

section \<open>The small games, evaluated\<close>

lemma small_dims: "rows small = 2" "cols small = 2"
  by (simp_all add: small_def)

lemma small_dealt: "dealt small (\<lambda>i. 0) = [Some ''a'', Some ''b'', Some ''b'', Some ''a'']"
  by code_simp

lemma dense_dealt:
  "dealt dense (\<lambda>i. 1 / 2) =
     [Some ''a'', Some ''e'', Some ''a'', Some ''d'', Some ''b'', Some ''a'',
      Some ''b'', Some ''e'', Some ''c'', Some ''a'', Some ''c'', Some ''d'']"
  by code_simp

lemma initial_fields:
  "nextElement (initial cfg) = 0" "selectedTile (initial cfg) = None" "elems (initial cfg) = (\<lambda>e. blank)"
  by (simp_all add: initial_def)

lemma started_fields:
  "board started = freshBoard small (dealt small (\<lambda>i. 0)) 0"
  "elems started = freshElems small (dealt small (\<lambda>i. 0)) 0 (\<lambda>e. blank)"
  "selectedTile started = None"
  by (simp_all add: started_def initializeGame_def resetGame_result initial_fields)

lemma started_board:
  "board started =
     [[\<lparr>cell.element = 0, cell.type = Some ''a'', cell.row = 0, cell.col = 0, visible = True\<rparr>,
       \<lparr>cell.element = 1, cell.type = Some ''b'', cell.row = 0, cell.col = 1, visible = True\<rparr>],
      [\<lparr>cell.element = 2, cell.type = Some ''b'', cell.row = 1, cell.col = 0, visible = True\<rparr>,
       \<lparr>cell.element = 3, cell.type = Some ''a'', cell.row = 1, cell.col = 1, visible = True\<rparr>]]"
  unfolding started_fields small_dealt by code_simp

lemma started_elems:
  "elems started 0 = \<lparr> dataset_row = 0, dataset_col = 0, dataset_type = ''a'', textContent = Some ''a'',
                       classList = {''tile''}, borderColor = [], boxShadow = [] \<rparr>"
  "elems started 3 = \<lparr> dataset_row = 1, dataset_col = 1, dataset_type = ''a'', textContent = Some ''a'',
                       classList = {''tile''}, borderColor = [], boxShadow = [] \<rparr>"
  unfolding started_fields small_dealt by code_simp+

lemma dense_dims: "rows dense = 4" "cols dense = 3"
  by (simp_all add: dense_def)

lemma walled_fields:
  "board walled = freshBoard dense (dealt dense (\<lambda>i. 1 / 2)) 0"
  "elems walled = freshElems dense (dealt dense (\<lambda>i. 1 / 2)) 0 (\<lambda>e. blank)"
  by (simp_all add: walled_def initializeGame_def resetGame_result initial_fields)

lemma walled_board:
  "board walled =
     [[\<lparr>cell.element = 0, cell.type = Some ''a'', cell.row = 0, cell.col = 0, visible = True\<rparr>,
       \<lparr>cell.element = 1, cell.type = Some ''e'', cell.row = 0, cell.col = 1, visible = True\<rparr>,
       \<lparr>cell.element = 2, cell.type = Some ''a'', cell.row = 0, cell.col = 2, visible = True\<rparr>],
      [\<lparr>cell.element = 3, cell.type = Some ''d'', cell.row = 1, cell.col = 0, visible = True\<rparr>,
       \<lparr>cell.element = 4, cell.type = Some ''b'', cell.row = 1, cell.col = 1, visible = True\<rparr>,
       \<lparr>cell.element = 5, cell.type = Some ''a'', cell.row = 1, cell.col = 2, visible = True\<rparr>],
      [\<lparr>cell.element = 6, cell.type = Some ''b'', cell.row = 2, cell.col = 0, visible = True\<rparr>,
       \<lparr>cell.element = 7, cell.type = Some ''e'', cell.row = 2, cell.col = 1, visible = True\<rparr>,
       \<lparr>cell.element = 8, cell.type = Some ''c'', cell.row = 2, cell.col = 2, visible = True\<rparr>],
      [\<lparr>cell.element = 9, cell.type = Some ''a'', cell.row = 3, cell.col = 0, visible = True\<rparr>,
       \<lparr>cell.element = 10, cell.type = Some ''c'', cell.row = 3, cell.col = 1, visible = True\<rparr>,
       \<lparr>cell.element = 11, cell.type = Some ''d'', cell.row = 3, cell.col = 2, visible = True\<rparr>]]"
  unfolding walled_fields dense_dealt by code_simp

lemma walled_tiles:
  "tileOf walled 0 = \<lparr> tile.element = 0, tile.row = 0, tile.col = 0, tile.type = ''a'' \<rparr>"
  "tileOf walled 3 = \<lparr> tile.element = 3, tile.row = 1, tile.col = 0, tile.type = ''d'' \<rparr>"
  "tileOf walled 2 = \<lparr> tile.element = 2, tile.row = 0, tile.col = 2, tile.type = ''a'' \<rparr>"
  "tileOf walled 4 = \<lparr> tile.element = 4, tile.row = 1, tile.col = 1, tile.type = ''b'' \<rparr>"
  "tileOf walled 5 = \<lparr> tile.element = 5, tile.row = 1, tile.col = 2, tile.type = ''a'' \<rparr>"
  "tileOf walled 6 = \<lparr> tile.element = 6, tile.row = 2, tile.col = 0, tile.type = ''b'' \<rparr>"
  unfolding tileOf_def walled_fields dense_dealt by code_simp+

lemma walled_queries:
  "validQuery (board walled) (1, 1) (2, 0)"
  "\<not> connectable (board walled) (1, 1) (2, 0)"
  "validQuery (board walled) (0, 2) (1, 2)"
  "clearLine (board walled) (0, 2) (1, 2)"
  "\<not> validQuery (board walled) (0, 0) (1, 0)"
  "\<not> validQuery (board walled) (0, 0) (0, 0)"
  "\<not> validQuery (board walled) (0, 0) (9, 9)"
  unfolding walled_board by code_simp+


lemma first_click:
  assumes "selectedTile w = None"
      and "''hidden'' \<notin> classList (elems w e)" "''selected'' \<notin> classList (elems w e)"
  shows "handleTileClick e w =
           (Done, w\<lparr> elems := (elems w)(e := (elems w e)\<lparr>classList := insert ''selected'' (classList (elems w e))\<rparr>),
                      selectedTile := Some (tileOf w e) \<rparr>)"
  using assms
  by (simp add: handleTileClick_def handleTileClick_with_def Let_def tileOf_def classAdd_def assign_def)

lemma started_children: "boardChildren started = [0, 1, 2, 3]"
proof -
  have "boardChildren started = map ((+) 0) [0..<rows small * cols small]"
    by (simp add: started_def initializeGame_def resetGame_result initial_fields)
  also have "\<dots> = [0, 1, 2, 3]" by code_simp
  finally show ?thesis .
qed

lemma picked_eq:
  "picked = started\<lparr> elems := (elems started)(0 := (elems started 0)\<lparr>classList := {''selected'', ''tile''}\<rparr>),
                     selectedTile := Some \<lparr> tile.element = 0, tile.row = 0, tile.col = 0, tile.type = ''a'' \<rparr> \<rparr>"
proof -
  have "handleTileClick 0 started =
          (Done, started\<lparr> elems := (elems started)(0 := (elems started 0)\<lparr>classList := insert ''selected'' (classList (elems started 0))\<rparr>),
                      selectedTile := Some (tileOf started 0) \<rparr>)"
    by (rule first_click) (simp_all add: started_fields(3) started_elems)
  then show ?thesis
    by (simp add: picked_def tileOf_def started_elems)
qed

lemma picked_fields:
  "selectedTile picked = Some \<lparr> tile.element = 0, tile.row = 0, tile.col = 0, tile.type = ''a'' \<rparr>"
  "board picked = board started"
  "boardChildren picked = [0, 1, 2, 3]"
  "elems picked 3 = elems started 3"
  by (simp_all add: picked_eq started_children)

lemma picked_consistent: "consistent picked"
  unfolding picked_def started_def
  by (rule consistent_game) (simp add: started_children [unfolded started_def])

lemma click_in_range:
  assumes sel: "selectedTile w = Some sel"
      and other: "tile.element sel \<noteq> e"
      and same: "tile.type sel = dataset_type (elems w e)"
      and shown: "''hidden'' \<notin> classList (elems w e)"
      and unselected: "''selected'' \<notin> classList (elems w e)"
      and first: "inRange (board w) (tile.row sel) (tile.col sel)"
      and second: "inRange (board w) (dataset_row (elems w e)) (dataset_col (elems w e))"
  shows "fst (handleTileClick e w) = Done
         \<and> \<not> visible (board (snd (handleTileClick e w)) ! tile.row sel ! tile.col sel)
         \<and> \<not> visible (board (snd (handleTileClick e w)) ! dataset_row (elems w e) ! dataset_col (elems w e))
         \<and> selectedTile (snd (handleTileClick e w)) = None"
  using assms
  apply (simp add: handleTileClick_def handleTileClick_with_def isMatchPossible_def Let_def inRange_def)
  apply (auto simp add: stmt_defs winGame_def Let_def nth_list_update split: option.splits)
  done


lemma matched_invisible:
  "\<not> visible (board matched ! 0 ! 0)" "\<not> visible (board matched ! 1 ! 1)"
proof -
  let ?sel = "\<lparr> tile.element = 0, tile.row = 0, tile.col = 0, tile.type = ''a'' \<rparr>"
  have m: "matched = snd (handleTileClick 3 picked)"
    by (simp add: matched_def picked_def)
  have "\<not> visible (board (snd (handleTileClick 3 picked)) ! tile.row ?sel ! tile.col ?sel)
        \<and> \<not> visible (board (snd (handleTileClick 3 picked))
                          ! dataset_row (elems picked 3) ! dataset_col (elems picked 3))"
    using click_in_range [of picked ?sel 3]
    by (simp add: picked_fields started_elems started_board inRange_def)
  then show "\<not> visible (board matched ! 0 ! 0)" "\<not> visible (board matched ! 1 ! 1)"
    by (simp_all add: m picked_fields started_elems)
qed

lemma matched_query: "\<not> validQuery (board matched) (0, 0) (1, 1)"
  by (simp add: validQuery_def isOccupied_def matched_invisible)

section \<open>Clicks\<close>

text \<open>
  Claim C1. The match test accepts every pair: \<open>isMatchPossible\<close> returns \<^verbatim>\<open>true\<close>. So, in
  a consistent world with a tile selected, a click on another element of the page that is
  neither hidden nor selected and carries the same type ends normally, leaves both cells
  invisible and clears the selection, wherever the two tiles lie and whatever else is on
  the board. (Every world of a game is consistent: \<open>consistent_game\<close>.)
\<close>

theorem same_type_click_eliminates:
  assumes "consistent w" and "e \<in> set (boardChildren w)"
      and "selectedTile w = Some sel" and "tile.element sel \<noteq> e"
      and "tile.type sel = dataset_type (elems w e)"
      and "''hidden'' \<notin> classList (elems w e)" and "''selected'' \<notin> classList (elems w e)"
  shows "fst (isMatchPossible sel (tileOf w e) w) = Returned True
         \<and> fst (handleTileClick e w) = Done
         \<and> \<not> visible (board (snd (handleTileClick e w)) ! tile.row sel ! tile.col sel)
         \<and> \<not> visible (board (snd (handleTileClick e w)) ! dataset_row (elems w e) ! dataset_col (elems w e))
         \<and> selectedTile (snd (handleTileClick e w)) = None"
proof -
  have first: "inRange (board w) (tile.row sel) (tile.col sel)"
    using assms(1,3) by (simp add: consistent_def)
  have second: "inRange (board w) (dataset_row (elems w e)) (dataset_col (elems w e))"
    using assms(1,2) by (simp add: consistent_def list_all_iff)
  show ?thesis
    using click_in_range [OF assms(3-7) first second] by (simp add: isMatchPossible_def)
qed

text \<open>
  The theorem on the two by two game, element 0 (an \<open>a\<close> at row 0, column 0) selected and
  element 3 (the \<open>a\<close> at row 1, column 1) clicked.
\<close>

theorem same_type_click_eliminates_witness:
  "selectedTile picked = Some \<lparr> tile.element = 0, tile.row = 0, tile.col = 0, tile.type = ''a'' \<rparr>
   \<and> dataset_row (elems picked 3) = 1 \<and> dataset_col (elems picked 3) = 1
   \<and> visible (board picked ! 0 ! 0) \<and> visible (board picked ! 1 ! 1)
   \<and> fst (handleTileClick 3 picked) = Done
   \<and> \<not> visible (board (snd (handleTileClick 3 picked)) ! 0 ! 0)
   \<and> \<not> visible (board (snd (handleTileClick 3 picked)) ! 1 ! 1)
   \<and> selectedTile (snd (handleTileClick 3 picked)) = None"
proof -
  let ?sel = "\<lparr> tile.element = 0, tile.row = 0, tile.col = 0, tile.type = ''a'' \<rparr>"
  have h2: "3 \<in> set (boardChildren picked)" by (simp add: picked_fields)
  have h3: "selectedTile picked = Some ?sel" by (simp add: picked_fields)
  have h4: "tile.element ?sel \<noteq> 3" by simp
  have h5: "tile.type ?sel = dataset_type (elems picked 3)"
    by (simp add: picked_fields started_elems)
  have h6: "''hidden'' \<notin> classList (elems picked 3)" by (simp add: picked_fields started_elems)
  have h7: "''selected'' \<notin> classList (elems picked 3)" by (simp add: picked_fields started_elems)
  show ?thesis
    using same_type_click_eliminates [OF picked_consistent h2 h3 h4 h5 h6 h7]
    by (simp add: picked_fields started_elems started_board)
qed

text \<open>
  Claim C8. Take the handler with any match test in place of \<^verbatim>\<open>isMatchPossible\<close>. When a
  tile is selected, another element carrying the same type is clicked and the match test
  returns \<^verbatim>\<open>false\<close>, the handler throws a TypeError and leaves \<^verbatim>\<open>state.selectedTile\<close> null:
  line 152 has cleared it when line 155 reads \<^verbatim>\<open>state.selectedTile.element\<close>. The handler
  as shipped never takes that branch, since \<open>isMatchPossible\<close> does not return \<^verbatim>\<open>false\<close>.
\<close>

theorem rejection_branch_throws:
  assumes sel: "selectedTile w = Some sel"
      and other: "tile.element sel \<noteq> e"
      and same: "tile.type sel = dataset_type (elems w e)"
      and shown: "''hidden'' \<notin> classList (elems w e)"
      and unselected: "''selected'' \<notin> classList (elems w e)"
      and reject: "fst (isMatch sel (tileOf w e) w) = Returned False"
  shows "fst (handleTileClick_with isMatch e w) = Threw TypeError
         \<and> selectedTile (snd (handleTileClick_with isMatch e w)) = None
         \<and> fst (isMatchPossible sel (tileOf w e) w) \<noteq> Returned False"
proof -
  obtain w1 where m: "isMatch sel (tileOf w e) w = (Returned False, w1)"
    using reject by (cases "isMatch sel (tileOf w e) w") auto
  let ?branch = "block [withSelected (\<lambda>s. classRemove (tile.element s) ''selected''),
                       assign (\<lambda>w. w\<lparr>selectedTile := None\<rparr>),
                       flashBorder (Some e) ''red'',
                       withSelected (\<lambda>s. flashBorder (Some (tile.element s)) ''red'')]"
  have body: "handleTileClick_with isMatch e w = ?branch w1"
    using sel other same shown unselected m
    by (simp add: handleTileClick_with_def Let_def tileOf_def del: block.simps)
  have "fst (?branch w1) = Threw TypeError \<and> selectedTile (snd (?branch w1)) = None"
    by (cases "selectedTile w1") (simp_all add: stmt_defs Let_def)
  then show ?thesis
    unfolding body by (simp add: isMatchPossible_def)
qed

text \<open>
  The theorem in the same situation, with \<open>isPathValid\<close> as the match test (what the TODO
  of line 183 asks for).
\<close>

theorem rejection_branch_throws_witness:
  "fst (isPathValid \<lparr> tile.element = 0, tile.row = 0, tile.col = 0, tile.type = ''a'' \<rparr> (tileOf picked 3) picked) = Returned False
   \<and> fst (handleTileClick_with isPathValid 3 picked) = Threw TypeError
   \<and> selectedTile (snd (handleTileClick_with isPathValid 3 picked)) = None
   \<and> fst (isMatchPossible \<lparr> tile.element = 0, tile.row = 0, tile.col = 0, tile.type = ''a'' \<rparr> (tileOf picked 3) picked) \<noteq> Returned False"
proof -
  let ?sel = "\<lparr> tile.element = 0, tile.row = 0, tile.col = 0, tile.type = ''a'' \<rparr>"
  have h1: "selectedTile picked = Some ?sel" by (simp add: picked_fields)
  have h2: "tile.element ?sel \<noteq> 3" by simp
  have h3: "tile.type ?sel = dataset_type (elems picked 3)"
    by (simp add: picked_fields started_elems)
  have h4: "''hidden'' \<notin> classList (elems picked 3)" by (simp add: picked_fields started_elems)
  have h5: "''selected'' \<notin> classList (elems picked 3)" by (simp add: picked_fields started_elems)
  have h6: "fst (isPathValid ?sel (tileOf picked 3) picked) = Returned False"
    by (simp add: isPathValid_def)
  show ?thesis
    using rejection_branch_throws [of picked ?sel 3 isPathValid, OF h1 h2 h3 h4 h5 h6] h6 by simp
qed

section \<open>The board over a session\<close>

lemma dispatch_shape:
  assumes "length (board w) = rows cfg" "\<forall>r < rows cfg. length (board w ! r) = cols cfg"
  shows "length (board (snd (dispatch cfg ev w))) = rows cfg
         \<and> (\<forall>r < rows cfg. length (board (snd (dispatch cfg ev w)) ! r) = cols cfg)"
proof (cases "isReset ev")
  case True
  then obtain rnd where "ev = Reset rnd" by (cases ev) auto
  then show ?thesis by (simp add: resetGame_result freshBoard_shape)
next
  case False
  then have "evolves (board w) (board (snd (dispatch cfg ev w)))"
    using keeps_dispatch [of ev cfg] by (simp add: keeps_def carries_on_def)
  then show ?thesis
    using assms evolves_nth(1,2) by metis
qed

lemma session_shape:
  "length (board w) = rows cfg \<Longrightarrow> \<forall>r < rows cfg. length (board w ! r) = cols cfg \<Longrightarrow>
     length (board (session cfg evs w)) = rows cfg
     \<and> (\<forall>r < rows cfg. length (board (session cfg evs w) ! r) = cols cfg)"
proof (induction evs arbitrary: w)
  case Nil
  then show ?case by simp
next
  case (Cons ev evs)
  then show ?case using dispatch_shape [of w cfg ev] by simp
qed

lemma game_shape:
  "length (board (session cfg evs (snd (initializeGame cfg rnd w0)))) = rows cfg
   \<and> (\<forall>r < rows cfg. length (board (session cfg evs (snd (initializeGame cfg rnd w0))) ! r) = cols cfg)"
  by (rule session_shape) (simp_all add: initializeGame_def resetGame_result freshBoard_shape)

lemma updateTimer_board: "board (snd (updateTimer w)) = board w"
  by (simp add: updateTimer_def loseGame_def assign_def stopGameTimer_def split: option.splits)

lemma flashEnd_board: "board (snd (flashEnd w)) = board w"
  by (simp add: flashEnd_def split: list.splits prod.splits)

lemma idle_click_board: "\<not> eliminating w e \<Longrightarrow> board (snd (handleTileClick e w)) = board w"
  unfolding handleTileClick_def handleTileClick_with_def isMatchPossible_def Let_def eliminating_def
  by (auto simp add: stmt_defs Let_def split: option.splits)

lemma hidden_at_outside: "\<not> inRange b r c \<Longrightarrow> hidden_at r c b = b"
  by (auto simp add: inRange_def hidden_at_def list_update_beyond not_less)

lemma eliminating_click_board:
  assumes "eliminating w e" "selectedTile w = Some sel"
  shows "board (snd (handleTileClick e w)) =
           (if inRange (board w) (tile.row sel) (tile.col sel)
            then hidden_at (dataset_row (elems w e)) (dataset_col (elems w e))
                   (hidden_at (tile.row sel) (tile.col sel) (board w))
            else board w)"
proof (cases "inRange (board w) (tile.row sel) (tile.col sel)")
  case False
  then show ?thesis
    using assms
    unfolding handleTileClick_def handleTileClick_with_def isMatchPossible_def Let_def eliminating_def
    by (auto simp add: stmt_defs Let_def inRange_def)
next
  case True
  let ?b1 = "hidden_at (tile.row sel) (tile.col sel) (board w)"
  show ?thesis
  proof (cases "inRange ?b1 (dataset_row (elems w e)) (dataset_col (elems w e))")
    case False
    then have "hidden_at (dataset_row (elems w e)) (dataset_col (elems w e)) ?b1 = ?b1"
      by (rule hidden_at_outside)
    moreover have "board (snd (handleTileClick e w)) = ?b1"
      using assms True False
      unfolding handleTileClick_def handleTileClick_with_def isMatchPossible_def Let_def eliminating_def
      by (auto simp add: stmt_defs Let_def inRange_def hidden_at_def)
    ultimately show ?thesis using True by simp
  next
    case second: True
    have "board (snd (handleTileClick e w)) =
            hidden_at (dataset_row (elems w e)) (dataset_col (elems w e)) ?b1"
      using assms True second
      unfolding handleTileClick_def handleTileClick_with_def isMatchPossible_def Let_def eliminating_def
      by (auto simp add: stmt_defs winGame_def Let_def inRange_def hidden_at_def split: option.splits)
    then show ?thesis using True by simp
  qed
qed

lemma picked_eliminating: "eliminating picked 3" "\<not> eliminating started 0"
  by (simp_all add: eliminating_def picked_fields started_elems started_fields(3))

text \<open>
  Claim C5. Over any events without a reset the board evolves from the one before: it
  keeps its number of rows and the length of each row, and each cell stays as it was or
  goes from visible to invisible with its element, type, row and column unchanged. A
  reset builds a board of \<open>rows\<close> rows of \<open>cols\<close> cells, each visible and carrying its
  own row and column. So after \<^verbatim>\<open>initializeGame\<close> the board has \<open>rows\<close> rows of \<open>cols\<close>
  cells whatever happens, resets included. The board changes on elimination only: a tick
  of the timer, the end of a flash and a click that does not eliminate leave it exactly
  as it was, and a click that eliminates leaves the board with the selected tile's cell
  and the clicked element's cell made invisible and nothing else changed (the board as
  it was when the selected tile names no cell: line 133 throws).
\<close>

theorem board_lifecycle:
  "((\<forall>ev \<in> set evs. \<not> isReset ev) \<longrightarrow> evolves (board w) (board (session cfg evs w)))
   \<and> length (board (snd (dispatch cfg (Reset rnd) w))) = rows cfg
   \<and> (\<forall>r < rows cfg.
         length (board (snd (dispatch cfg (Reset rnd) w)) ! r) = cols cfg
         \<and> (\<forall>c < cols cfg.
               visible (board (snd (dispatch cfg (Reset rnd) w)) ! r ! c)
               \<and> cell.row (board (snd (dispatch cfg (Reset rnd) w)) ! r ! c) = r
               \<and> cell.col (board (snd (dispatch cfg (Reset rnd) w)) ! r ! c) = c))
   \<and> length (board (session cfg evs' (snd (initializeGame cfg rnd' w0)))) = rows cfg
   \<and> (\<forall>r < rows cfg.
         length (board (session cfg evs' (snd (initializeGame cfg rnd' w0))) ! r) = cols cfg)
   \<and> board (snd (dispatch cfg Tick w)) = board w
   \<and> board (snd (dispatch cfg FlashTimeout w)) = board w
   \<and> (\<not> eliminating w e \<longrightarrow> board (snd (dispatch cfg (Click e) w)) = board w)
   \<and> (eliminating w e \<longrightarrow> selectedTile w = Some sel \<longrightarrow>
         board (snd (dispatch cfg (Click e) w)) =
           (if inRange (board w) (tile.row sel) (tile.col sel)
            then hidden_at (dataset_row (elems w e)) (dataset_col (elems w e))
                   (hidden_at (tile.row sel) (tile.col sel) (board w))
            else board w))"
proof -
  have "(\<forall>ev \<in> set evs. \<not> isReset ev) \<longrightarrow> evolves (board w) (board (session cfg evs w))"
    using session_carries_on [of evs w cfg] by (simp add: carries_on_def)
  moreover have "board (snd (dispatch cfg (Reset rnd) w)) = freshBoard cfg (dealt cfg rnd) (nextElement w)"
    by (simp add: resetGame_result)
  ultimately show ?thesis
    using game_shape [of cfg evs' rnd' w0] eliminating_click_board [of w e sel]
    by (simp add: freshBoard_shape freshCell_def updateTimer_board flashEnd_board idle_click_board)
qed

text \<open>
  The theorem on the two by two game: two clicks that match, a tick and the end of a
  flash; a reset of the game with a tile selected; a first click, a tick and the end of
  a flash, which leave the board as it is; and the click that eliminates the two \<open>a\<close>.
\<close>

theorem board_lifecycle_witness:
  "evolves (board started) (board (session small [Click 0, Click 3, Tick, FlashTimeout] started))
   \<and> length (board started) = 2
   \<and> length (board (session small [Click 0, Click 3, Tick, FlashTimeout] started)) = 2
   \<and> length (board (snd (dispatch small (Reset (\<lambda>i. 1 / 2)) picked))) = 2
   \<and> visible (board (snd (dispatch small (Reset (\<lambda>i. 1 / 2)) picked)) ! 1 ! 1)
   \<and> map (map visible) (board started) = [[True, True], [True, True]]
   \<and> board (snd (dispatch small (Click 0) started)) = board started
   \<and> board (snd (dispatch small Tick picked)) = board started
   \<and> board (snd (dispatch small FlashTimeout picked)) = board started
   \<and> map (map visible) (board (snd (dispatch small (Click 3) picked))) = [[False, True], [True, False]]"
proof -
  let ?sel = "\<lparr> tile.element = 0, tile.row = 0, tile.col = 0, tile.type = ''a'' \<rparr>"
  have h: "\<forall>ev \<in> set [Click 0, Click 3, Tick, FlashTimeout]. \<not> isReset ev" by simp
  note t = board_lifecycle [of "[Click 0, Click 3, Tick, FlashTimeout]" started small "\<lambda>i. 1 / 2"]
  have e: "evolves (board started) (board (session small [Click 0, Click 3, Tick, FlashTimeout] started))"
    using t h by blast
  have l: "length (board (session small [Click 0, Click 3, Tick, FlashTimeout] started)) = 2"
    using evolves_nth(1) [OF e] by (simp add: started_board)
  note p = board_lifecycle [of "[]" picked small "\<lambda>i. 1 / 2" "[]" "\<lambda>i. 0" "initial small" 3 ?sel]
  have r: "length (board (snd (dispatch small (Reset (\<lambda>i. 1 / 2)) picked))) = 2
           \<and> visible (board (snd (dispatch small (Reset (\<lambda>i. 1 / 2)) picked)) ! 1 ! 1)"
    using p by (simp add: small_dims)
  have idle: "board (snd (dispatch small (Click 0) started)) = board started"
    using board_lifecycle [of "[]" started small "\<lambda>i. 0" "[]" "\<lambda>i. 0" "initial small" 0 ?sel]
          picked_eliminating(2) by blast
  have tick: "board (snd (dispatch small Tick picked)) = board started"
             "board (snd (dispatch small FlashTimeout picked)) = board started"
    using p by (simp_all add: picked_fields)
  have "board (snd (dispatch small (Click 3) picked)) =
          (if inRange (board picked) (tile.row ?sel) (tile.col ?sel)
            then hidden_at (dataset_row (elems picked 3)) (dataset_col (elems picked 3))
                   (hidden_at (tile.row ?sel) (tile.col ?sel) (board picked))
            else board picked)"
    using p picked_eliminating(1) picked_fields(1) by blast
  then have hit: "map (map visible) (board (snd (dispatch small (Click 3) picked)))
                    = [[False, True], [True, False]]"
    by (simp add: picked_fields started_elems started_board inRange_def hidden_at_def)
  show ?thesis
    using e l r idle tick hit by (simp add: started_board)
qed

section \<open>The match test and the path test\<close>

text \<open>
  Claim C2. For all tiles and every world, \<open>isMatchPossible\<close> returns \<^verbatim>\<open>true\<close> and
  \<open>isPathValid\<close> returns \<^verbatim>\<open>false\<close>.
\<close>

theorem stubs_are_constants:
  "fst (isMatchPossible tile1 tile2 w) = Returned True
   \<and> fst (isPathValid tile1 tile2 w) = Returned False"
  by (simp add: isMatchPossible_def isPathValid_def)

text \<open>
  Claim C3 says that a malformed query (an endpoint off the board, endpoints of different
  types, twice the same endpoint, an invisible endpoint) is answered with an
  InvalidArgument failure and never with the ordinary "no path" result. The script has no
  such check. On the four by three board: a query between an \<open>a\<close> and a \<open>d\<close>, one from
  a tile to itself and one to row 9, column 9 are not valid, and \<open>isPathValid\<close> returns
  \<^verbatim>\<open>false\<close> for each of them; so it does for the two cells a match has just made
  invisible on the two by two board.
\<close>

theorem malformed_query_counterexample:
  "\<not> validQuery (board walled) (position (tileOf walled 0)) (position (tileOf walled 3))
   \<and> fst (isPathValid (tileOf walled 0) (tileOf walled 3) walled) = Returned False
   \<and> \<not> validQuery (board walled) (position (tileOf walled 0)) (position (tileOf walled 0))
   \<and> fst (isPathValid (tileOf walled 0) (tileOf walled 0) walled) = Returned False
   \<and> \<not> validQuery (board walled) (position (tileOf walled 0))
          (position \<lparr> tile.element = 0, tile.row = 9, tile.col = 9, tile.type = ''a'' \<rparr>)
   \<and> fst (isPathValid (tileOf walled 0)
            \<lparr> tile.element = 0, tile.row = 9, tile.col = 9, tile.type = ''a'' \<rparr> walled) = Returned False
   \<and> \<not> validQuery (board matched)
          (position \<lparr> tile.element = 0, tile.row = 0, tile.col = 0, tile.type = ''a'' \<rparr>)
          (position \<lparr> tile.element = 3, tile.row = 1, tile.col = 1, tile.type = ''a'' \<rparr>)
   \<and> fst (isPathValid \<lparr> tile.element = 0, tile.row = 0, tile.col = 0, tile.type = ''a'' \<rparr>
            \<lparr> tile.element = 3, tile.row = 1, tile.col = 1, tile.type = ''a'' \<rparr> matched) = Returned False"
  by (simp add: walled_tiles position_def walled_queries matched_query isPathValid_def)

text \<open>
  Claim C3, as the script has it: for a query that is not valid, \<open>isPathValid\<close> returns
  \<^verbatim>\<open>false\<close>, its ordinary result, and \<open>isMatchPossible\<close> returns \<^verbatim>\<open>true\<close>; nothing is
  thrown and the board is as before.
\<close>

theorem malformed_query_returns_normally:
  assumes "\<not> validQuery (board w) (position tile1) (position tile2)"
  shows "fst (isPathValid tile1 tile2 w) = Returned False
         \<and> fst (isMatchPossible tile1 tile2 w) = Returned True
         \<and> board (snd (isPathValid tile1 tile2 w)) = board w"
  by (simp add: isPathValid_def isMatchPossible_def)

text \<open>The theorem at the query between an \<open>a\<close> and a \<open>d\<close> of the four by three board.\<close>

theorem malformed_query_returns_normally_witness:
  "\<not> validQuery (board walled) (position (tileOf walled 0)) (position (tileOf walled 3))
   \<and> fst (isPathValid (tileOf walled 0) (tileOf walled 3) walled) = Returned False
   \<and> fst (isMatchPossible (tileOf walled 0) (tileOf walled 3) walled) = Returned True"
proof -
  have h: "\<not> validQuery (board walled) (position (tileOf walled 0)) (position (tileOf walled 3))"
    by (simp add: walled_tiles position_def walled_queries)
  show ?thesis
    using malformed_query_returns_normally [OF h] h by simp
qed

text \<open>
  Claim C4 says that two visible cells of one type with a clear straight line between them
  are connected by a path of their two endpoints. \<open>isPathValid\<close>, documented as the test
  for a path with at most two turns, is a placeholder: on the four by three board the two
  \<open>a\<close> at the end of the first two rows touch, the query is valid, the line between them
  is clear, and \<open>isPathValid\<close> returns \<^verbatim>\<open>false\<close>.
\<close>

theorem straight_line_pair_rejected:
  "validQuery (board walled) (position (tileOf walled 2)) (position (tileOf walled 5))
   \<and> clearLine (board walled) (position (tileOf walled 2)) (position (tileOf walled 5))
   \<and> fst (isPathValid (tileOf walled 2) (tileOf walled 5) walled) = Returned False"
  by (simp add: walled_tiles position_def walled_queries isPathValid_def)

text \<open>
  Claim C6. \<open>isPathValid\<close> and \<open>isMatchPossible\<close> leave the board as they found it
  (they write to the console only), and a second call with the same tiles returns what
  the first did.
\<close>

theorem path_test_reads_only:
  "board (snd (isPathValid tile1 tile2 w)) = board w
   \<and> fst (isPathValid tile1 tile2 (snd (isPathValid tile1 tile2 w))) = fst (isPathValid tile1 tile2 w)
   \<and> board (snd (isMatchPossible tile1 tile2 w)) = board w
   \<and> fst (isMatchPossible tile1 tile2 (snd (isMatchPossible tile1 tile2 w)))
       = fst (isMatchPossible tile1 tile2 w)"
  by (simp add: isPathValid_def isMatchPossible_def)

text \<open>
  Claim C7. For a valid query whose endpoints no route with at most two turns connects,
  \<open>isPathValid\<close> returns \<^verbatim>\<open>false\<close>, its result for "no path".
\<close>

theorem blocked_pair_has_no_path:
  assumes "validQuery (board w) (position tile1) (position tile2)"
      and "\<not> connectable (board w) (position tile1) (position tile2)"
  shows "fst (isPathValid tile1 tile2 w) = Returned False"
  by (simp add: isPathValid_def)

text \<open>
  The theorem on the four by three board, for the walled-in \<open>b\<close> at row 1, column 1 and
  the \<open>b\<close> at row 2, column 0.
\<close>

theorem blocked_pair_has_no_path_witness:
  "validQuery (board walled) (position (tileOf walled 4)) (position (tileOf walled 6))
   \<and> \<not> connectable (board walled) (position (tileOf walled 4)) (position (tileOf walled 6))
   \<and> fst (isPathValid (tileOf walled 4) (tileOf walled 6) walled) = Returned False"
proof -
  have h1: "validQuery (board walled) (position (tileOf walled 4)) (position (tileOf walled 6))"
    by (simp add: walled_tiles position_def walled_queries)
  have h2: "\<not> connectable (board walled) (position (tileOf walled 4)) (position (tileOf walled 6))"
    by (simp add: walled_tiles position_def walled_queries)
  show ?thesis
    using blocked_pair_has_no_path [OF h1 h2] h1 h2 by simp
qed

end
